theory Spec2Isabelle
  imports Main "HOL-Library.Sublist"
begin

section \<open>JavaScript values used by the clients\<close>

text \<open>
  Strings are byte strings. A value that may be \<open>null\<close> or \<open>undefined\<close> is an
  \<open>option\<close>; JavaScript truthiness of such a string value is \<open>truthy\<close>: \<open>null\<close>,
  \<open>undefined\<close> and the empty string are falsy.
\<close>

definition truthy :: "string option \<Rightarrow> bool" where
  "truthy v = (case v of None \<Rightarrow> False | Some s \<Rightarrow> s \<noteq> [])"

text \<open>
  \<open>String.prototype.split\<close> with a non-empty separator; \<open>acc\<close> holds the current piece
  reversed. Every call in the sources passes a non-empty separator.
\<close>

function split_js :: "string \<Rightarrow> string \<Rightarrow> string \<Rightarrow> string list" where
  "split_js sep acc [] = [rev acc]"
| "split_js sep acc (c # cs) =
     (if sep \<noteq> [] \<and> take (length sep) (c # cs) = sep
      then rev acc # split_js sep [] (drop (length sep) (c # cs))
      else split_js sep (c # acc) cs)"
  by pat_completeness auto
termination
  by (relation "measure (\<lambda>(sep, acc, s). length s)") auto

text \<open>\<open>toUpperCase\<close> on the ASCII letters; HTTP method names are ASCII.\<close>

definition upper_char :: "char \<Rightarrow> char" where
  "upper_char c =
     (case map_of (zip ''abcdefghijklmnopqrstuvwxyz'' ''ABCDEFGHIJKLMNOPQRSTUVWXYZ'') c of
        Some u \<Rightarrow> u
      | None \<Rightarrow> c)"

definition toUpperCase :: "string \<Rightarrow> string" where
  "toUpperCase s = map upper_char s"

text \<open>
  \<open>URLSearchParams.toString()\<close>: the application/x-www-form-urlencoded serialiser.
\<close>

definition hex_digit :: "nat \<Rightarrow> char" where
  "hex_digit n = ''0123456789ABCDEF'' ! (n mod 16)"

definition form_encode_char :: "char \<Rightarrow> string" where
  "form_encode_char c =
     (if c \<in> set ''abcdefghijklmnopqrstuvwxyzABCDEFGHIJKLMNOPQRSTUVWXYZ0123456789*-._''
      then [c]
      else if c = CHR '' '' then ''+''
      else [CHR ''%'', hex_digit (of_char c div 16), hex_digit (of_char c mod 16)])"

definition form_encode :: "string \<Rightarrow> string" where
  "form_encode s = concat (map form_encode_char s)"

fun params_toString :: "(string \<times> string) list \<Rightarrow> string" where
  "params_toString [] = []"
| "params_toString [(k, v)] = form_encode k @ ''='' @ form_encode v"
| "params_toString ((k, v) # ps) =
     form_encode k @ ''='' @ form_encode v @ ''&'' @ params_toString ps"

section \<open>Web application: anti-forgery token and request wrapper\<close>

datatype body =
    NoBody
  | FormBody "(string \<times> string) list"
  | JsonBody "(string \<times> string) list"

record fetch_options =
  http_method :: "string option"
  headers :: "string \<rightharpoonup> string"
  credentials :: "string option"
  mode :: "string option"
  body :: body

type_synonym fetch_log = "(string \<times> fetch_options) list"

text \<open>
  A response as the callers read it. \<open>json\<close> is \<open>None\<close> when \<open>response.json()\<close> (or
  the access to the field read from it) throws and \<open>Some v\<close> when the body parses to
  \<open>v\<close>, the part of the body the caller reads; \<open>text_body\<close> is \<open>None\<close> when
  \<open>response.text()\<close> rejects; \<open>csrf_header\<close> is \<open>response.headers.get('X-CSRF-Token')\<close>;
  \<open>error_detail\<close> is what the extension reads from the body of a failed request:
  \<open>None\<close> when it does not parse, \<open>Some d\<close> with
  \<open>d = error.detail || error.message || error.error\<close> otherwise.
\<close>

record 'a response =
  status :: nat
  statusText :: string
  csrf_header :: "string option"
  json :: "'a option"
  text_body :: "string option"
  error_detail :: "string option option"

definition ok :: "'a response \<Rightarrow> bool" where
  "ok r = (200 \<le> status r \<and> status r \<le> 299)"

datatype 'a fetch_outcome = NetworkError string | Responded "'a response"

record cache_entry =
  token :: "string option"
  expiresAt :: int

text \<open>
  The module-level variables of the web application, the alerts shown, the last
  assignment to \<open>window.location.href\<close> and the log of the calls of \<open>fetch\<close>.
\<close>

record app_state =
  csrfToken :: "string option"
  mediaTokenCache :: "string \<rightharpoonup> cache_entry"
  recentlyCreatedClips :: "string \<rightharpoonup> int"
  alerts :: "(string \<times> string) list"
  location_href :: "string option"
  sent :: fetch_log

definition getCookie :: "string \<Rightarrow> string \<Rightarrow> string option" where
  "getCookie document_cookie name =
     (let value = ''; '' @ document_cookie;
          parts = split_js (''; '' @ name @ ''='') [] value
      in if length parts = 2
         then (case split_js '';'' [] (last parts) of [] \<Rightarrow> None | x # _ \<Rightarrow> Some x)
         else None)"

definition updateCSRFToken :: "'a response \<Rightarrow> app_state \<Rightarrow> app_state" where
  "updateCSRFToken r st =
     (if truthy (csrf_header r) then st\<lparr>csrfToken := csrf_header r\<rparr> else st)"

definition getCSRFHeaders :: "string \<Rightarrow> app_state \<Rightarrow> (string \<rightharpoonup> string) \<times> app_state" where
  "getCSRFHeaders document_cookie st =
     (let cookieToken = getCookie document_cookie ''csrf_token''
      in case cookieToken of
           None \<Rightarrow> (Map.empty, st)
         | Some t \<Rightarrow>
             if t \<noteq> [] then ([''X-CSRF-Token'' \<mapsto> t], st\<lparr>csrfToken := Some t\<rparr>)
             else (Map.empty, st))"

definition ensureCSRFToken :: "string \<Rightarrow> app_state \<Rightarrow> app_state" where
  "ensureCSRFToken document_cookie st =
     (let cookieToken = getCookie document_cookie ''csrf_token''
      in if truthy cookieToken then st\<lparr>csrfToken := cookieToken\<rparr> else st)"

definition is_mutating :: "string option \<Rightarrow> bool" where
  "is_mutating m =
     (case m of
        None \<Rightarrow> False
      | Some s \<Rightarrow> s \<noteq> [] \<and> toUpperCase s \<in> set [''POST'', ''PUT'', ''DELETE'', ''PATCH''])"

text \<open>
  \<open>safeFetch(url, options)\<close>. \<open>document_cookie\<close> is \<open>document.cookie\<close> at the call and
  \<open>outcome\<close> is what \<open>fetch\<close> does. A thrown error is \<open>Inl\<close>.
\<close>

definition safeFetch ::
  "string \<Rightarrow> 'a fetch_outcome \<Rightarrow> string \<Rightarrow> fetch_options \<Rightarrow> app_state
     \<Rightarrow> (string + 'a response) \<times> app_state" where
  "safeFetch document_cookie outcome url options st =
     (let (options1, st1) =
            (if is_mutating (http_method options)
             then (let st_a = ensureCSRFToken document_cookie st;
                       (h, st_b) = getCSRFHeaders document_cookie st_a
                   in (options\<lparr>headers := headers options ++ h\<rparr>, st_b))
             else (options, st));
          options2 = options1\<lparr>credentials :=
                        (if truthy (credentials options1) then credentials options1
                         else Some ''include'')\<rparr>;
          st2 = st1\<lparr>sent := sent st1 @ [(url, options2)]\<rparr>
      in case outcome of
           NetworkError e \<Rightarrow> (Inl e, st2)
         | Responded r \<Rightarrow> (Inr r, updateCSRFToken r st2))"

section \<open>Web application: media tokens\<close>

text \<open>
  What \<open>getMediaToken\<close> meets when it runs: the two readings of \<open>Date.now()\<close>, the
  cookie jar and the outcome of the request, whose body is read as \<open>data.token\<close>.
\<close>

record token_env =
  now_check :: int
  cookie_jar :: string
  token_fetch :: "string option fetch_outcome"
  now_store :: int

text \<open>The \<open>try\<close> block of \<open>getMediaToken\<close>, reached on a miss or an expired entry.\<close>

definition getMediaToken_request ::
  "token_env \<Rightarrow> string \<Rightarrow> string \<Rightarrow> string \<Rightarrow> app_state \<Rightarrow> string option \<times> app_state" where
  "getMediaToken_request env cacheKey resourceId resourceType st =
     (let (res, st1) =
            safeFetch (cookie_jar env) (token_fetch env) ''/api/v1/auth/media-token''
              \<lparr>http_method = Some ''POST'',
               headers = [''Content-Type'' \<mapsto> ''application/x-www-form-urlencoded''],
               credentials = None,
               mode = None,
               body = FormBody [(''resource_id'', resourceId),
                                (''resource_type'', resourceType)]\<rparr> st
      in case res of
           Inl e \<Rightarrow> (None, st1)
         | Inr r \<Rightarrow>
             if ok r then
               (case json r of
                  None \<Rightarrow> (None, st1)
                | Some t \<Rightarrow>
                    (t, st1\<lparr>mediaTokenCache := (mediaTokenCache st1)
                              (cacheKey \<mapsto> \<lparr>token = t,
                                            expiresAt = now_store env + 50 * 60 * 1000\<rparr>)\<rparr>))
             else if status r = 401 then (None, st1\<lparr>location_href := Some ''/login''\<rparr>)
             else (None, st1))"

definition getMediaToken ::
  "token_env \<Rightarrow> string \<Rightarrow> string \<Rightarrow> app_state \<Rightarrow> string option \<times> app_state" where
  "getMediaToken env resourceId resourceType st =
     (let cacheKey = resourceType @ '':'' @ resourceId
      in case mediaTokenCache st cacheKey of
           None \<Rightarrow> getMediaToken_request env cacheKey resourceId resourceType st
         | Some cached \<Rightarrow>
             if expiresAt cached > now_check env then (token cached, st)
             else getMediaToken_request env cacheKey resourceId resourceType st)"

definition getMediaUrl ::
  "string \<Rightarrow> string \<Rightarrow> string \<Rightarrow> string option \<Rightarrow> bool \<Rightarrow> string" where
  "getMediaUrl baseUrl resourceId resourceType tok forDownload =
     (let params = (case tok of
                      Some t \<Rightarrow> if t \<noteq> [] then [(''token'', t)] else []
                    | None \<Rightarrow> [])
                   @ (if forDownload then [(''download'', ''true'')] else [])
      in if params_toString params \<noteq> []
         then baseUrl @ (if CHR ''?'' \<in> set baseUrl then ''&'' else ''?'')
                @ params_toString params
         else baseUrl)"

definition getSecureMediaUrl ::
  "token_env \<Rightarrow> string \<Rightarrow> string \<Rightarrow> string \<Rightarrow> bool \<Rightarrow> app_state \<Rightarrow> string \<times> app_state" where
  "getSecureMediaUrl env baseUrl resourceId resourceType forDownload st =
     (let (tok, st1) = getMediaToken env resourceId resourceType st
      in (getMediaUrl baseUrl resourceId resourceType tok forDownload, st1))"

section \<open>Web application: recently created clips and media errors\<close>

definition markClipAsRecentlyCreated :: "int \<Rightarrow> string \<Rightarrow> app_state \<Rightarrow> app_state" where
  "markClipAsRecentlyCreated now clipId st =
     st\<lparr>recentlyCreatedClips := (recentlyCreatedClips st)(clipId \<mapsto> now + 5 * 60 * 1000)\<rparr>"

text \<open>A stored \<open>expiresAt\<close> of \<open>0\<close> is falsy in both tests of the source.\<close>

definition isClipRecentlyCreated :: "int \<Rightarrow> string \<Rightarrow> app_state \<Rightarrow> bool \<times> app_state" where
  "isClipRecentlyCreated now clipId st =
     (case recentlyCreatedClips st clipId of
        None \<Rightarrow> (False, st)
      | Some e \<Rightarrow>
          if e \<noteq> 0 \<and> e > now then (True, st)
          else if e \<noteq> 0
            then (False, st\<lparr>recentlyCreatedClips := (recentlyCreatedClips st)(clipId := None)\<rparr>)
            else (False, st))"

text \<open>
  The error object of the player (\<open>player.error()\<close>, \<open>None\<close> for \<open>null\<close>).
\<close>

record media_error =
  code :: nat
  message :: "string option"

text \<open>
  The player is a Video.js player: \<open>initializeVideoJSPlayer\<close> creates it with
  \<open>videojs(...)\<close> and is the only place that registers the error listener. The player
  holds the URL of its current source (empty when it has none) and, for the record, the
  sources it was given through \<open>player.src({type, src})\<close>, each as the pair of its
  \<open>type\<close> and its \<open>src\<close>. A value that may be a URL
  string or a source object is a \<open>src_value\<close>; the getter \<open>player.src()\<close> of Video.js
  returns the URL string.
\<close>

record source =
  src :: string
  src_type :: string

datatype src_value = SrcUrl string | SrcObject source

record player =
  source_url :: string
  loaded :: "(string option \<times> string) list"

definition player_src :: "player \<Rightarrow> src_value" where
  "player_src pl = SrcUrl (source_url pl)"

text \<open>
  Truthiness of such a value, and its properties \<open>.src\<close> and \<open>.type\<close>, which are
  \<open>undefined\<close> on a string.
\<close>

definition truthy_src :: "src_value \<Rightarrow> bool" where
  "truthy_src v = (case v of SrcUrl u \<Rightarrow> u \<noteq> [] | SrcObject sc \<Rightarrow> True)"

definition property_src :: "src_value \<Rightarrow> string option" where
  "property_src v = (case v of SrcUrl u \<Rightarrow> None | SrcObject sc \<Rightarrow> Some (src sc))"

definition property_type :: "src_value \<Rightarrow> string option" where
  "property_type v = (case v of SrcUrl u \<Rightarrow> None | SrcObject sc \<Rightarrow> Some (src_type sc))"

definition showAlert :: "string \<Rightarrow> string \<Rightarrow> app_state \<Rightarrow> app_state" where
  "showAlert msg title st = st\<lparr>alerts := alerts st @ [(msg, title)]\<rparr>"

definition includes_js :: "string option \<Rightarrow> string \<Rightarrow> bool" where
  "includes_js s sub = (case s of None \<Rightarrow> False | Some t \<Rightarrow> sublist sub t)"

text \<open>
  \<open>handleMediaError(error, resourceId, resourceType, retryFunction)\<close>; the retry
  function works on the player and answers whether it reloaded it.
\<close>

definition handleMediaError ::
  "token_env \<Rightarrow> media_error option \<Rightarrow> string \<Rightarrow> string
     \<Rightarrow> (string option \<Rightarrow> player \<Rightarrow> bool \<times> player) option
     \<Rightarrow> app_state \<Rightarrow> player \<Rightarrow> bool \<times> app_state \<times> player" where
  "handleMediaError env error resourceId resourceType retryFunction st pl =
     (case error of
        None \<Rightarrow> (False, st, pl)
      | Some err \<Rightarrow>
          if code err = 4 \<or> includes_js (message err) ''401''
               \<or> includes_js (message err) ''Unauthorized''
          then (let cacheKey = resourceType @ '':'' @ resourceId;
                    st1 = st\<lparr>mediaTokenCache := (mediaTokenCache st)(cacheKey := None)\<rparr>;
                    (newToken, st2) = getMediaToken env resourceId resourceType st1
                in case retryFunction of
                     Some f \<Rightarrow>
                       if truthy newToken
                       then (let (b, pl1) = f newToken pl in (b, st2, pl1))
                       else (False,
                             showAlert ''Session expired. Please refresh the page.'' ''Error'' st2,
                             pl)
                   | None \<Rightarrow>
                       (False,
                        showAlert ''Session expired. Please refresh the page.'' ''Error'' st2,
                        pl))
          else (False, st, pl))"

text \<open>
  The retry function that \<open>setupVideoPlayerErrorHandling\<close> passes: it reads
  \<open>player.src()\<close>, and reloads the player when that value and its \<open>.src\<close> are truthy.
\<close>

definition retry_with_token ::
  "string \<Rightarrow> string \<Rightarrow> string option \<Rightarrow> player \<Rightarrow> bool \<times> player" where
  "retry_with_token resourceId resourceType newToken pl =
     (let currentSrc = player_src pl
      in if truthy_src currentSrc \<and> truthy (property_src currentSrc)
         then (let baseUrl = (case property_src currentSrc of
                                None \<Rightarrow> []
                              | Some u \<Rightarrow> (case split_js ''?'' [] u of [] \<Rightarrow> [] | x # _ \<Rightarrow> x));
                   newUrl = getMediaUrl baseUrl resourceId resourceType newToken False
               in (True, pl\<lparr>source_url := newUrl,
                             loaded := loaded pl @ [(property_type currentSrc, newUrl)]\<rparr>))
         else (False, pl))"

text \<open>
  The listener that \<open>setupVideoPlayerErrorHandling\<close> registers with
  \<open>player.on('error', ...)\<close>; \<open>now\<close> is the reading of \<open>Date.now()\<close> in
  \<open>isClipRecentlyCreated\<close>. The timer that closes the modals three seconds after the
  "not ready" alert touches only the page and is left out.
\<close>

definition videoPlayer_onError ::
  "int \<Rightarrow> token_env \<Rightarrow> media_error option \<Rightarrow> string \<Rightarrow> string
     \<Rightarrow> app_state \<Rightarrow> player \<Rightarrow> app_state \<times> player" where
  "videoPlayer_onError now env error resourceId resourceType st pl =
     (case error of
        None \<Rightarrow> (st, pl)
      | Some err \<Rightarrow>
          if code err = 4
          then (let (recent, st1) = isClipRecentlyCreated now resourceId st
                in if recent
                   then (showAlert
                           ''Video is still processing. Please try again in a few moments.''
                           ''Video Not Ready'' st1, pl)
                   else (let (handled, st2, pl2) =
                               handleMediaError env error resourceId resourceType
                                 (Some (retry_with_token resourceId resourceType)) st1 pl
                         in if handled then (st2, pl2)
                            else (showAlert ''Failed to load video. Please refresh the page.''
                                    ''Error'' st2, pl2)))
          else (st, pl))"

text \<open>
  The error listener of a player made by \<open>initializeVideoJSPlayer\<close>: the one above when
  a resource id and a resource type are passed, one that only logs the error otherwise.
\<close>

definition initializeVideoJSPlayer_onError ::
  "string option \<Rightarrow> string option \<Rightarrow> int \<Rightarrow> token_env \<Rightarrow> media_error option
     \<Rightarrow> app_state \<Rightarrow> player \<Rightarrow> app_state \<times> player" where
  "initializeVideoJSPlayer_onError resourceId resourceType now env error st pl =
     (case resourceId of
        None \<Rightarrow> (st, pl)
      | Some rid \<Rightarrow>
          (case resourceType of
             None \<Rightarrow> (st, pl)
           | Some rty \<Rightarrow>
               if rid \<noteq> [] \<and> rty \<noteq> []
               then videoPlayer_onError now env error rid rty st pl
               else (st, pl)))"

section \<open>Web application: the PIN requests and the popup handshake\<close>

record pin_data =
  pin_id :: string
  pin_code :: string

record pin_status =
  authenticated :: bool
  auth_token :: "string option"

text \<open>\<open>createPlexPin\<close> and \<open>checkPinStatus\<close> call the native \<open>fetch\<close>; both answer \<open>null\<close>
  on any failure.\<close>

definition createPlexPin :: "pin_data fetch_outcome \<Rightarrow> fetch_log \<Rightarrow> pin_data option \<times> fetch_log" where
  "createPlexPin outcome log =
     (let log1 = log @ [(''/api/v1/auth/pin'',
                         \<lparr>http_method = Some ''POST'',
                          headers = [''Content-Type'' \<mapsto> ''application/json''],
                          credentials = None, mode = None, body = NoBody\<rparr>)]
      in case outcome of
           NetworkError e \<Rightarrow> (None, log1)
         | Responded r \<Rightarrow> if ok r then (json r, log1) else (None, log1))"

definition checkPinStatus ::
  "string \<Rightarrow> pin_status fetch_outcome \<Rightarrow> fetch_log \<Rightarrow> pin_status option \<times> fetch_log" where
  "checkPinStatus pinId outcome log =
     (let log1 = log @ [(''/api/v1/auth/pin/'' @ pinId,
                         \<lparr>http_method = None, headers = Map.empty,
                          credentials = None, mode = None, body = NoBody\<rparr>)]
      in case outcome of
           NetworkError e \<Rightarrow> (None, log1)
         | Responded r \<Rightarrow> if ok r then (json r, log1) else (None, log1))"

datatype oauth_outcome = Success string | Failure string | Redirected

text \<open>
  What one run of \<open>plexOAuth\<close> meets: the outcome of the PIN request, whether
  \<open>popupCenter\<close> returns a window, the time in milliseconds after the start of polling
  at which the user closes the popup (\<open>None\<close>: never), the outcome of the status
  request of each tick, and which of the two timers due at 300000 ms runs first.
  The interval timer fires at the multiples of 1000 ms and each status request is
  answered before the next tick.
\<close>

record oauth_env =
  pin :: "pin_data fetch_outcome"
  popup_available :: bool
  closed_time :: "nat option"
  status_at :: "nat \<Rightarrow> pin_status fetch_outcome"
  timeout_first :: bool

definition popup_closed :: "oauth_env \<Rightarrow> nat \<Rightarrow> bool" where
  "popup_closed env t = (case closed_time env of None \<Rightarrow> False | Some c \<Rightarrow> c \<le> t)"

text \<open>
  Tick \<open>k\<close> of the interval timer of \<open>plexOAuth\<close>, at \<open>1000 * k\<close> ms, together with
  the five-minute timer of the same run, for a handshake that runs alone on its page:
  no five-minute timer of an earlier run is pending and no later run starts before
  this one ends. The answer is the callback invoked, the time of the call and the
  requests sent.
\<close>

function plexOAuth_poll ::
  "oauth_env \<Rightarrow> string \<Rightarrow> nat \<Rightarrow> fetch_log \<Rightarrow> oauth_outcome \<times> nat \<times> fetch_log" where
  "plexOAuth_poll env pinId k log =
     (if 300 \<le> k \<and> timeout_first env \<and> \<not> popup_closed env 300000
      then (Failure ''Authentication timeout'', 300000, log)
      else if popup_closed env (1000 * k)
      then (Failure ''Authentication cancelled'', 1000 * k, log)
      else (case checkPinStatus pinId (status_at env k) log of
              (st, log1) \<Rightarrow>
                (case st of
                   Some s \<Rightarrow>
                     if authenticated s \<and> truthy (auth_token s)
                     then (Success (case auth_token s of Some t \<Rightarrow> t | None \<Rightarrow> []),
                           1000 * k, log1)
                     else if 300 \<le> k
                     then (Failure ''Authentication timeout'', 300000, log1)
                     else plexOAuth_poll env pinId (k + 1) log1
                 | None \<Rightarrow>
                     if 300 \<le> k
                     then (Failure ''Authentication timeout'', 300000, log1)
                     else plexOAuth_poll env pinId (k + 1) log1)))"
  by pat_completeness auto
termination
  by (relation "measure (\<lambda>(env, pinId, k, log). 300 - k)") auto

declare plexOAuth_poll.simps [simp del]

definition plexOAuth :: "oauth_env \<Rightarrow> oauth_outcome \<times> nat \<times> fetch_log" where
  "plexOAuth env =
     (case createPlexPin (pin env) [] of
        (None, log) \<Rightarrow> (Failure ''Failed to create authentication PIN'', 0, log)
      | (Some pinData, log) \<Rightarrow>
          if \<not> popup_available env then (Redirected, 0, log)
          else plexOAuth_poll env (pin_id pinData) 1 log)"

section \<open>Extension: API client\<close>

datatype error =
    NetworkFailure string
  | ErrorDetail string
  | RequestFailed nat
  | StatusLine nat string
  | InvalidJson
  | NoPlexToken
  | AuthenticationTimeout

record api_client =
  baseUrl :: string
  api_token :: "string option"
  api_plexToken :: "string option"

text \<open>
  A value that is a string, \<open>null\<close> or \<open>undefined\<close>, where the two must be told apart:
  \<open>chrome.storage.local.set\<close> stores \<open>null\<close> and skips a property whose value is
  \<open>undefined\<close>. In the storage area \<open>Undefined\<close> stands for a key that is not stored.
  The fields of the API client are only tested for truthiness, so there \<open>None\<close> stands
  for both.
\<close>

datatype jsval = Undefined | Null | Str string

definition truthy_val :: "jsval \<Rightarrow> bool" where
  "truthy_val v = (case v of Str s \<Rightarrow> s \<noteq> [] | _ \<Rightarrow> False)"

definition as_option :: "jsval \<Rightarrow> string option" where
  "as_option v = (case v of Str s \<Rightarrow> Some s | _ \<Rightarrow> None)"

record signin_response =
  access_token :: jsval
  user :: "string option"

text \<open>The error a failed request is turned into, in \<open>request\<close> and \<open>createAuthPin\<close>.\<close>

definition errorDetail :: "'a response \<Rightarrow> error" where
  "errorDetail r =
     (case error_detail r of
        None \<Rightarrow> StatusLine (status r) (statusText r)
      | Some None \<Rightarrow> RequestFailed (status r)
      | Some (Some d) \<Rightarrow> if d \<noteq> [] then ErrorDetail d else RequestFailed (status r))"

text \<open>\<open>request(endpoint, options)\<close>; \<open>origin\<close> is \<open>chrome.runtime.getURL('')\<close>.\<close>

definition request ::
  "string \<Rightarrow> 'a fetch_outcome \<Rightarrow> string \<Rightarrow> fetch_options \<Rightarrow> api_client \<Rightarrow> fetch_log
     \<Rightarrow> (error + 'a) \<times> fetch_log" where
  "request origin outcome endpoint options api log =
     (let hs = [''Content-Type'' \<mapsto> ''application/json'', ''Origin'' \<mapsto> origin]
                 ++ headers options;
          hs1 = (case api_token api of
                   Some t \<Rightarrow> if t \<noteq> [] then hs(''Authorization'' \<mapsto> ''Bearer '' @ t) else hs
                 | None \<Rightarrow> hs);
          log1 = log @ [(baseUrl api @ endpoint,
                         options\<lparr>headers := hs1, credentials := Some ''include'',
                                  mode := Some ''cors''\<rparr>)]
      in case outcome of
           NetworkError e \<Rightarrow> (Inl (NetworkFailure e), log1)
         | Responded r \<Rightarrow>
             if \<not> ok r then (Inl (errorDetail r), log1)
             else (case json r of
                     None \<Rightarrow> (Inl InvalidJson, log1)
                   | Some v \<Rightarrow> (Inr v, log1)))"

definition authenticate ::
  "string \<Rightarrow> signin_response fetch_outcome \<Rightarrow> string \<Rightarrow> api_client \<Rightarrow> fetch_log
     \<Rightarrow> (error + signin_response) \<times> api_client \<times> fetch_log" where
  "authenticate origin outcome plexTok api log =
     (case request origin outcome ''/api/v1/auth/signin''
             \<lparr>http_method = Some ''POST'', headers = Map.empty, credentials = None, mode = None,
              body = JsonBody [(''plex_token'', plexTok)]\<rparr> api log of
        (Inl e, log1) \<Rightarrow> (Inl e, api, log1)
      | (Inr resp, log1) \<Rightarrow>
          (Inr resp,
           (if truthy_val (access_token resp)
            then api\<lparr>api_token := as_option (access_token resp)\<rparr> else api),
           log1))"

definition createAuthPin ::
  "pin_data fetch_outcome \<Rightarrow> api_client \<Rightarrow> fetch_log \<Rightarrow> (error + pin_data) \<times> fetch_log" where
  "createAuthPin outcome api log =
     (let log1 = log @ [(baseUrl api @ ''/api/v1/auth/pin'',
                         \<lparr>http_method = Some ''POST'',
                          headers = [''Content-Type'' \<mapsto> ''application/json''],
                          credentials = Some ''omit'', mode = Some ''cors'',
                          body = JsonBody [(''client_id'', ''clipforge-extension''),
                                           (''client_name'', ''ClipForge Browser Extension'')]\<rparr>)]
      in case outcome of
           NetworkError e \<Rightarrow> (Inl (NetworkFailure e), log1)
         | Responded r \<Rightarrow>
             if \<not> ok r then (Inl (errorDetail r), log1)
             else (case json r of
                     None \<Rightarrow> (Inl InvalidJson, log1)
                   | Some v \<Rightarrow> (Inr v, log1)))"

text \<open>\<open>checkAuthPin(pinId)\<close>; of the answer only \<open>auth_token\<close> is read by its caller.\<close>

definition checkAuthPin ::
  "string \<Rightarrow> pin_status fetch_outcome \<Rightarrow> api_client \<Rightarrow> fetch_log
     \<Rightarrow> (error + pin_status) \<times> fetch_log" where
  "checkAuthPin pinId outcome api log =
     (let log1 = log @ [(baseUrl api @ ''/api/v1/auth/pin/'' @ pinId,
                         \<lparr>http_method = Some ''GET'',
                          headers = [''Content-Type'' \<mapsto> ''application/json''],
                          credentials = Some ''omit'', mode = Some ''cors'',
                          body = NoBody\<rparr>)]
      in case outcome of
           NetworkError e \<Rightarrow> (Inl (NetworkFailure e), log1)
         | Responded r \<Rightarrow>
             if \<not> ok r
             then (if status r = 404
                   then (Inr \<lparr>authenticated = False, auth_token = None\<rparr>, log1)
                   else (Inl (RequestFailed (status r)), log1))
             else (case json r of
                     None \<Rightarrow> (Inl InvalidJson, log1)
                   | Some v \<Rightarrow> (Inr v, log1)))"

section \<open>Extension: AuthManager\<close>

text \<open>
  The three keys of \<open>chrome.storage.local\<close> that the manager uses, the API client it
  owns, the requests sent and \<open>chrome.runtime.getURL('')\<close>. Storage calls succeed.
\<close>

record local_store =
  authToken :: jsval
  plexToken :: jsval
  tokenExpiry :: "int option"

record auth_manager =
  api :: api_client
  local :: local_store
  net :: fetch_log
  extension_url :: string

text \<open>
  \<open>saveTokens(authToken, plexToken)\<close> at the reading \<open>now\<close> of \<open>Date.now()\<close>. A
  property whose value is \<open>undefined\<close> is not written by \<open>chrome.storage.local.set\<close>,
  so the stored value stays; \<open>null\<close> is written like a string.
\<close>

definition saveTokens :: "int \<Rightarrow> jsval \<Rightarrow> jsval \<Rightarrow> auth_manager \<Rightarrow> auth_manager" where
  "saveTokens now authTok plexTok m =
     m\<lparr>local := \<lparr>authToken = (case authTok of
                                 Undefined \<Rightarrow> authToken (local m)
                               | Null \<Rightarrow> Null
                               | Str a \<Rightarrow> Str a),
                  plexToken = (case plexTok of
                                 Undefined \<Rightarrow> plexToken (local m)
                               | Null \<Rightarrow> Null
                               | Str p \<Rightarrow> Str p),
                  tokenExpiry = Some (now + 7 * 24 * 60 * 60 * 1000)\<rparr>,
       api := (api m)\<lparr>api_token := as_option authTok, api_plexToken := as_option plexTok\<rparr>\<rparr>"

definition clearTokens :: "auth_manager \<Rightarrow> auth_manager" where
  "clearTokens m =
     m\<lparr>local := \<lparr>authToken = Undefined, plexToken = Undefined, tokenExpiry = None\<rparr>,
       api := (api m)\<lparr>api_token := None, api_plexToken := None\<rparr>\<rparr>"

text \<open>
  One round of \<open>getStoredTokens\<close>: the reading of \<open>Date.now()\<close> in the expiry test,
  and, when the round refreshes, the outcome of the sign-in request and the reading of
  \<open>Date.now()\<close> in \<open>saveTokens\<close>.
\<close>

record refresh_round =
  now_read :: int
  signin :: "signin_response fetch_outcome"
  now_save :: int

definition refreshTokens ::
  "refresh_round \<Rightarrow> auth_manager \<Rightarrow> (error + signin_response) \<times> auth_manager" where
  "refreshTokens r m =
     (case plexToken (local m) of
        Undefined \<Rightarrow> (Inl NoPlexToken, clearTokens m)
      | Null \<Rightarrow> (Inl NoPlexToken, clearTokens m)
      | Str p \<Rightarrow>
          if p = [] then (Inl NoPlexToken, clearTokens m)
          else (case authenticate (extension_url m) (signin r) p (api m) (net m) of
                  (Inl e, api1, log1) \<Rightarrow> (Inl e, clearTokens (m\<lparr>api := api1, net := log1\<rparr>))
                | (Inr resp, api1, log1) \<Rightarrow>
                    (Inr resp,
                     saveTokens (now_save r) (access_token resp) (Str p)
                       (m\<lparr>api := api1, net := log1\<rparr>))))"

text \<open>
  \<open>getStoredTokens()\<close>. Each call takes one round; the answer is \<open>None\<close> when the
  rounds given are used up before the function returns, \<open>Some (Inl e, _)\<close> when it
  throws \<open>e\<close> and \<open>Some (Inr data, _)\<close> when it returns \<open>data\<close>.
\<close>

fun getStoredTokens ::
  "refresh_round list \<Rightarrow> auth_manager \<Rightarrow> ((error + local_store) \<times> auth_manager) option" where
  "getStoredTokens [] m = None"
| "getStoredTokens (r # rs) m =
     (let data = local m
      in if (case tokenExpiry data of None \<Rightarrow> False | Some e \<Rightarrow> e \<noteq> 0 \<and> e < now_read r)
         then (case refreshTokens r m of
                 (Inl e, m1) \<Rightarrow> Some (Inl e, m1)
               | (Inr resp, m1) \<Rightarrow> getStoredTokens rs m1)
         else Some (Inr data, m))"

text \<open>
  The interval callback of \<open>pollForToken\<close>, run tick after tick, for a call that runs
  alone on its manager: no other call of \<open>pollForToken\<close> is made while its timer runs,
  so that \<open>this.pollInterval\<close> names the timer of this call at every tick (the manager
  with several calls is \<open>poll_step\<close> below). \<open>attempts\<close> is the counter before the tick
  and \<open>poll k\<close> the outcome of the status request of tick \<open>k\<close>, answered before the
  next tick. The answer holds the settlement of the promise, the number of the tick
  that settles it and the requests sent.
\<close>

function pollForToken_ticks ::
  "(nat \<Rightarrow> pin_status fetch_outcome) \<Rightarrow> string \<Rightarrow> nat \<Rightarrow> nat \<Rightarrow> api_client \<Rightarrow> fetch_log
     \<Rightarrow> (error + string) \<times> nat \<times> fetch_log" where
  "pollForToken_ticks poll pinId maxAttempts attempts ap log =
     (if attempts + 1 > maxAttempts then (Inl AuthenticationTimeout, attempts + 1, log)
      else (case checkAuthPin pinId (poll (attempts + 1)) ap log of
              (Inl e, log1) \<Rightarrow> pollForToken_ticks poll pinId maxAttempts (attempts + 1) ap log1
            | (Inr resp, log1) \<Rightarrow>
                (case auth_token resp of
                   None \<Rightarrow> pollForToken_ticks poll pinId maxAttempts (attempts + 1) ap log1
                 | Some t \<Rightarrow>
                     if t \<noteq> [] then (Inr t, attempts + 1, log1)
                     else pollForToken_ticks poll pinId maxAttempts (attempts + 1) ap log1)))"
  by pat_completeness auto
termination
  by (relation "measure (\<lambda>(poll, pinId, maxAttempts, attempts, ap, log).
                           maxAttempts + 1 - attempts)") auto

declare pollForToken_ticks.simps [simp del]

definition pollForToken ::
  "(nat \<Rightarrow> pin_status fetch_outcome) \<Rightarrow> string \<Rightarrow> nat \<Rightarrow> api_client \<Rightarrow> fetch_log
     \<Rightarrow> (error + string) \<times> nat \<times> fetch_log" where
  "pollForToken poll pinId maxAttempts ap log =
     pollForToken_ticks poll pinId maxAttempts 0 ap log"


text \<open>
  One call of \<open>pollForToken\<close> as the manager holds it: the arguments, the counter
  \<open>attempts\<close> of its callback and the settlement of its promise, with the number of
  the tick of its own timer at which it settled.
\<close>

record poll_call =
  call_pin :: string
  call_max :: nat
  call_attempts :: nat
  call_settled :: "((error + string) \<times> nat) option"

text \<open>
  What the calls of \<open>pollForToken\<close> on one manager share: \<open>this.pollInterval\<close>, the
  handle of the timer created last; the interval timers not yet cleared; the calls
  made, the call with timer \<open>i\<close> at position \<open>i\<close>; the requests sent.
\<close>

record poll_manager =
  pollInterval :: "nat option"
  timers :: "nat list"
  poll_calls :: "poll_call list"
  poll_net :: fetch_log

text \<open>
  What happens on the manager: \<open>pollForToken(pinId, maxAttempts)\<close> is called, or the
  interval timer \<open>i\<close> fires and its status request gets the given outcome before
  anything else happens. Each timer fires every 2000 ms after the call that created it.
\<close>

datatype poll_event = Call string nat | Tick nat "pin_status fetch_outcome"

definition clearInterval :: "nat option \<Rightarrow> nat list \<Rightarrow> nat list" where
  "clearInterval handle ts = (case handle of None \<Rightarrow> ts | Some i \<Rightarrow> removeAll i ts)"

text \<open>\<open>resolve\<close> and \<open>reject\<close>: only the first settlement of a promise counts.\<close>

definition settle :: "error + string \<Rightarrow> poll_call \<Rightarrow> poll_call" where
  "settle v c =
     (case call_settled c of
        None \<Rightarrow> c\<lparr>call_settled := Some (v, call_attempts c)\<rparr>
      | Some old \<Rightarrow> c)"

text \<open>
  One event on the manager. A call creates its timer and writes the handle to
  \<open>this.pollInterval\<close>. A tick of a timer that was cleared does nothing; a tick of a
  running timer is the callback of \<open>pollForToken\<close> for its call, and the timer it
  clears is the one \<open>this.pollInterval\<close> names at that moment.
\<close>

fun poll_step :: "api_client \<Rightarrow> poll_event \<Rightarrow> poll_manager \<Rightarrow> poll_manager" where
  "poll_step ap (Call pinId maxAttempts) s =
     s\<lparr>pollInterval := Some (length (poll_calls s)),
       timers := timers s @ [length (poll_calls s)],
       poll_calls := poll_calls s @ [\<lparr>call_pin = pinId, call_max = maxAttempts,
                                     call_attempts = 0, call_settled = None\<rparr>]\<rparr>"
| "poll_step ap (Tick i out) s =
     (if i \<in> set (timers s) \<and> i < length (poll_calls s)
      then (let c = (poll_calls s ! i)\<lparr>call_attempts := call_attempts (poll_calls s ! i) + 1\<rparr>
            in if call_attempts c > call_max c
               then s\<lparr>timers := clearInterval (pollInterval s) (timers s),
                      poll_calls := (poll_calls s)[i := settle (Inl AuthenticationTimeout) c]\<rparr>
               else (case checkAuthPin (call_pin c) out ap (poll_net s) of
                       (Inl e, log1) \<Rightarrow>
                         s\<lparr>poll_calls := (poll_calls s)[i := c], poll_net := log1\<rparr>
                     | (Inr resp, log1) \<Rightarrow>
                         (case auth_token resp of
                            None \<Rightarrow> s\<lparr>poll_calls := (poll_calls s)[i := c], poll_net := log1\<rparr>
                          | Some t \<Rightarrow>
                              if t \<noteq> []
                              then s\<lparr>timers := clearInterval (pollInterval s) (timers s),
                                     poll_calls := (poll_calls s)[i := settle (Inr t) c],
                                     poll_net := log1\<rparr>
                              else s\<lparr>poll_calls := (poll_calls s)[i := c],
                                     poll_net := log1\<rparr>)))
      else s)"

text \<open>The events of a list, one after the other.\<close>

fun poll_run :: "api_client \<Rightarrow> poll_event list \<Rightarrow> poll_manager \<Rightarrow> poll_manager" where
  "poll_run ap [] s = s"
| "poll_run ap (e # es) s = poll_run ap es (poll_step ap e s)"

text \<open>The ticks \<open>a + 1\<close> to \<open>a + n\<close> of the timer \<open>i\<close>, with the outcomes of their requests.\<close>

fun own_ticks :: "nat \<Rightarrow> (nat \<Rightarrow> pin_status fetch_outcome) \<Rightarrow> nat \<Rightarrow> nat \<Rightarrow> poll_event list" where
  "own_ticks i outs a 0 = []"
| "own_ticks i outs a (Suc n) = Tick i (outs (a + 1)) # own_ticks i outs (a + 1) n"



section \<open>Extension: SecureStorage\<close>

text \<open>
  The in-memory \<open>Map\<close> of the class and \<open>chrome.storage.local\<close> behind it. An object
  passed to or returned by the class maps a key to \<open>Some v\<close> for a property of value
  \<open>v\<close> and to \<open>None\<close> for a property whose value is \<open>undefined\<close>; the \<open>Map\<close> holds
  such entries as well. The storage area holds values only: \<open>chrome.storage.local.set\<close>
  does not store a property whose value is \<open>undefined\<close>. Each storage call carries a
  flag: \<open>False\<close> when \<open>chrome.runtime.lastError\<close> is set, in which case the storage
  area is left as it was.
\<close>

record ('k, 'v) secure_storage =
  cache :: "'k \<rightharpoonup> 'v option"
  area :: "'k \<rightharpoonup> 'v"

datatype storage_error = LastError

text \<open>What \<open>chrome.storage.local.set(data)\<close> stores of the object \<open>data\<close>.\<close>

definition stored_part :: "('k \<rightharpoonup> 'v option) \<Rightarrow> ('k \<rightharpoonup> 'v)" where
  "stored_part data k = (case data k of Some (Some v) \<Rightarrow> Some v | _ \<Rightarrow> None)"

text \<open>The object that \<open>chrome.storage.local.get\<close> answers for the content \<open>m\<close>.\<close>

definition as_object :: "('k \<rightharpoonup> 'v) \<Rightarrow> ('k \<rightharpoonup> 'v option)" where
  "as_object m k = map_option Some (m k)"

text \<open>
  \<open>get(keys)\<close> answers the object built, the keys asked of the storage area (\<open>None\<close>
  when \<open>getFromStorage\<close> is not called) and the new state.
\<close>

definition SecureStorage_get ::
  "bool \<Rightarrow> 'k list \<Rightarrow> ('k, 'v) secure_storage
     \<Rightarrow> ('k \<rightharpoonup> 'v option) \<times> 'k list option \<times> ('k, 'v) secure_storage" where
  "SecureStorage_get storage_ok keys s =
     (let cached = cache s |` set keys;
          uncached = filter (\<lambda>k. cache s k = None) keys
      in if uncached \<noteq> []
         then (let stored = (if storage_ok then as_object (area s |` set uncached)
                             else Map.empty)
               in (cached ++ stored, Some uncached, s\<lparr>cache := cache s ++ stored\<rparr>))
         else (cached, None, s))"

definition SecureStorage_set ::
  "bool \<Rightarrow> ('k \<rightharpoonup> 'v option) \<Rightarrow> ('k, 'v) secure_storage
     \<Rightarrow> storage_error + ('k, 'v) secure_storage" where
  "SecureStorage_set storage_ok data s =
     (if storage_ok
      then Inr (s\<lparr>area := area s ++ stored_part data, cache := cache s ++ data\<rparr>)
      else Inl LastError)"

definition SecureStorage_remove ::
  "bool \<Rightarrow> 'k list \<Rightarrow> ('k, 'v) secure_storage
     \<Rightarrow> storage_error + ('k, 'v) secure_storage" where
  "SecureStorage_remove storage_ok keys s =
     (if storage_ok
      then Inr (s\<lparr>area := area s |` (- set keys), cache := cache s |` (- set keys)\<rparr>)
      else Inl LastError)"

definition SecureStorage_clear ::
  "bool \<Rightarrow> ('k, 'v) secure_storage \<Rightarrow> storage_error + ('k, 'v) secure_storage" where
  "SecureStorage_clear storage_ok s =
     (if storage_ok then Inr (s\<lparr>area := Map.empty, cache := Map.empty\<rparr>)
      else Inl LastError)"

text \<open>A sequence of calls; a call that rejects leaves the state as it was.\<close>

datatype ('k, 'v) storage_call =
    Get "'k list" bool
  | Set "'k \<rightharpoonup> 'v option" bool
  | Remove "'k list" bool
  | Clear bool

fun call :: "('k, 'v) storage_call \<Rightarrow> ('k, 'v) secure_storage \<Rightarrow> ('k, 'v) secure_storage" where
  "call (Get keys b) s = snd (snd (SecureStorage_get b keys s))"
| "call (Set data b) s = (case SecureStorage_set b data s of Inl e \<Rightarrow> s | Inr s1 \<Rightarrow> s1)"
| "call (Remove keys b) s = (case SecureStorage_remove b keys s of Inl e \<Rightarrow> s | Inr s1 \<Rightarrow> s1)"
| "call (Clear b) s = (case SecureStorage_clear b s of Inl e \<Rightarrow> s | Inr s1 \<Rightarrow> s1)"

fun calls :: "('k, 'v) storage_call list \<Rightarrow> ('k, 'v) secure_storage \<Rightarrow> ('k, 'v) secure_storage" where
  "calls [] s = s"
| "calls (c # cs) s = calls cs (call c s)"

text \<open>
  The values last written: what a plain object holds after the same calls, a property
  set to \<open>undefined\<close> included.
\<close>

fun written ::
  "('k, 'v) storage_call list \<Rightarrow> ('k \<rightharpoonup> 'v option) \<Rightarrow> ('k \<rightharpoonup> 'v option)" where
  "written [] w = w"
| "written (Get keys b # cs) w = written cs w"
| "written (Set data b # cs) w = written cs (if b then w ++ data else w)"
| "written (Remove keys b # cs) w = written cs (if b then w |` (- set keys) else w)"
| "written (Clear b # cs) w = written cs (if b then Map.empty else w)"

text \<open>
  What the instance answers for each key: the entry of the \<open>Map\<close> where it has one, the
  content of the storage area elsewhere.
\<close>

definition view :: "('k, 'v) secure_storage \<Rightarrow> ('k \<rightharpoonup> 'v option)" where
  "view s = as_object (area s) ++ cache s"

text \<open>No \<open>set\<close> of the sequence passes a property whose value is \<open>undefined\<close>.\<close>

fun defined_values :: "('k, 'v) storage_call list \<Rightarrow> bool" where
  "defined_values [] = True"
| "defined_values (Set data b # cs) = ((\<forall>k. data k \<noteq> Some None) \<and> defined_values cs)"
| "defined_values (c # cs) = defined_values cs"

section \<open>Notions used in the statements\<close>

text \<open>
  What a media-token request that is made answers, read off the environment: the token
  returned and the cache entry stored (\<open>None\<close> when the request fails or its body does
  not parse).
\<close>

definition fetched_token :: "token_env \<Rightarrow> string option" where
  "fetched_token env =
     (case token_fetch env of
        NetworkError e \<Rightarrow> None
      | Responded r \<Rightarrow> if ok r then (case json r of None \<Rightarrow> None | Some t \<Rightarrow> t) else None)"

definition fetched_entry :: "token_env \<Rightarrow> cache_entry option" where
  "fetched_entry env =
     (case token_fetch env of
        NetworkError e \<Rightarrow> None
      | Responded r \<Rightarrow>
          if ok r then (case json r of
                          None \<Rightarrow> None
                        | Some t \<Rightarrow> Some \<lparr>token = t, expiresAt = now_store env + 50 * 60 * 1000\<rparr>)
          else None)"

text \<open>
  A request without the anti-forgery header: no \<open>X-CSRF-Token\<close> entry, and no header
  at all other than \<open>Content-Type\<close>.
\<close>

definition no_csrf :: "string \<times> fetch_options \<Rightarrow> bool" where
  "no_csrf rq = (headers (snd rq) ''X-CSRF-Token'' = None \<and>
                 (dom (headers (snd rq)) = {} \<or> dom (headers (snd rq)) = {''Content-Type''}))"

text \<open>
  Whether the answer to a status request resolves the handshake: for the extension a
  truthy \<open>auth_token\<close> in a successful answer, for the web application also
  \<open>authenticated\<close>.
\<close>

definition poll_resolves :: "pin_status fetch_outcome \<Rightarrow> bool" where
  "poll_resolves out =
     (case out of
        NetworkError e \<Rightarrow> False
      | Responded r \<Rightarrow>
          ok r \<and> (case json r of None \<Rightarrow> False | Some v \<Rightarrow> truthy (auth_token v)))"

definition status_resolves :: "pin_status fetch_outcome \<Rightarrow> bool" where
  "status_resolves out =
     (case out of
        NetworkError e \<Rightarrow> False
      | Responded r \<Rightarrow>
          ok r \<and> (case json r of
                     None \<Rightarrow> False
                   | Some s \<Rightarrow> authenticated s \<and> truthy (auth_token s)))"

text \<open>The number of the first tick of the one-second timer at or after the time \<open>c\<close>.\<close>

definition tick_after :: "nat \<Rightarrow> nat" where
  "tick_after c = max 1 ((c + 999) div 1000)"

text \<open>
  How \<open>request\<close> answers an outcome of \<open>fetch\<close>: the error thrown or the body
  returned.
\<close>

definition answered :: "'a fetch_outcome \<Rightarrow> error + 'a" where
  "answered out =
     (case out of
        NetworkError e \<Rightarrow> Inl (NetworkFailure e)
      | Responded r \<Rightarrow>
          if \<not> ok r then Inl (errorDetail r)
          else (case json r of None \<Rightarrow> Inl InvalidJson | Some v \<Rightarrow> Inr v))"

section \<open>Concrete states and environments\<close>

text \<open>The web application as it starts, and with one cached media token.\<close>

definition fresh_app :: app_state where
  "fresh_app = \<lparr>csrfToken = None, mediaTokenCache = Map.empty,
                 recentlyCreatedClips = Map.empty, alerts = [], location_href = None,
                 sent = []\<rparr>"

definition cached_app :: app_state where
  "cached_app = fresh_app\<lparr>mediaTokenCache :=
       [''video:clip_2'' \<mapsto> \<lparr>token = Some ''mt_2'', expiresAt = 1700000600000\<rparr>]\<rparr>"

definition offline_env :: token_env where
  "offline_env = \<lparr>now_check = 1700000000000, cookie_jar = ''csrf_token=abc'',
                   token_fetch = NetworkError ''Failed to fetch'',
                   now_store = 1700000000050\<rparr>"

definition post_options :: fetch_options where
  "post_options = \<lparr>http_method = Some ''POST'', headers = Map.empty, credentials = None,
                    mode = None, body = NoBody\<rparr>"

definition json_post_options :: fetch_options where
  "json_post_options = post_options\<lparr>headers := [''Content-Type'' \<mapsto> ''application/json'']\<rparr>"

text \<open>
  A server that answers the token request, a page whose cached token the media server
  no longer accepts, and the error the player reports.
\<close>

definition token_response :: "string \<Rightarrow> string option response" where
  "token_response t = \<lparr>status = 200, statusText = ''OK'', csrf_header = None,
                        json = Some (Some t), text_body = None, error_detail = None\<rparr>"

definition online_env :: "int \<Rightarrow> string \<Rightarrow> token_env" where
  "online_env t tok = \<lparr>now_check = t, cookie_jar = ''csrf_token=abc'',
                        token_fetch = Responded (token_response tok), now_store = t + 200\<rparr>"

definition stale_app :: app_state where
  "stale_app = fresh_app\<lparr>mediaTokenCache :=
       [''video:clip_3'' \<mapsto> \<lparr>token = Some ''mt_old'', expiresAt = 1700003000000\<rparr>]\<rparr>"

definition stale_player :: player where
  "stale_player = \<lparr>source_url = ''/clips/3.mp4?token=mt_old'', loaded = []\<rparr>"

definition src_not_supported :: media_error where
  "src_not_supported = \<lparr>code = 4, message = Some ''The media could not be loaded''\<rparr>"

text \<open>A backend on which the PIN is created and never authorized.\<close>

definition pending_response :: "pin_status response" where
  "pending_response = \<lparr>status = 200, statusText = ''OK'', csrf_header = None,
                        json = Some \<lparr>authenticated = False, auth_token = None\<rparr>,
                        text_body = None, error_detail = None\<rparr>"

definition pending_polls :: "nat \<Rightarrow> pin_status fetch_outcome" where
  "pending_polls k = Responded pending_response"


definition pin_response :: "pin_data response" where
  "pin_response = \<lparr>status = 200, statusText = ''OK'', csrf_header = None,
                    json = Some \<lparr>pin_id = ''abc'', pin_code = ''XYZ123''\<rparr>,
                    text_body = None, error_detail = None\<rparr>"

definition signin_failure :: "signin_response response" where
  "signin_failure = \<lparr>status = 401, statusText = ''Unauthorized'', csrf_header = None,
                      json = None, text_body = None,
                      error_detail = Some (Some ''Invalid Plex token'')\<rparr>"



text \<open>A popup the user closes 4.5 seconds into the polling.\<close>

definition closing_env :: oauth_env where
  "closing_env = \<lparr>pin = Responded pin_response, popup_available = True,
                   closed_time = Some 4500, status_at = pending_polls,
                   timeout_first = False\<rparr>"


text \<open>An error of the player that is not of code 4.\<close>

definition network_error :: media_error where
  "network_error = \<lparr>code = 2, message = Some ''A network error caused the media download to fail''\<rparr>"

text \<open>
  A manager whose stored session expired, a sign-in that the backend refuses and one
  it accepts.
\<close>

definition expired_manager :: auth_manager where
  "expired_manager =
     \<lparr>api = \<lparr>baseUrl = ''http://localhost:8000'', api_token = Some ''at_old'',
             api_plexToken = Some ''ptk_1''\<rparr>,
      local = \<lparr>authToken = Str ''at_old'', plexToken = Str ''ptk_1'',
                tokenExpiry = Some 1700000000000\<rparr>,
      net = [], extension_url = ''chrome-extension://clipforge/''\<rparr>"

definition signin_success :: "signin_response response" where
  "signin_success = \<lparr>status = 200, statusText = ''OK'', csrf_header = None,
                      json = Some \<lparr>access_token = Str ''at_new'', user = Some ''jo''\<rparr>,
                      text_body = None, error_detail = None\<rparr>"

definition refused_round :: refresh_round where
  "refused_round = \<lparr>now_read = 1700000100000, signin = Responded signin_failure,
                     now_save = 1700000100300\<rparr>"

definition accepted_round :: refresh_round where
  "accepted_round = \<lparr>now_read = 1700000100000, signin = Responded signin_success,
                      now_save = 1700000100300\<rparr>"

definition later_round :: refresh_round where
  "later_round = \<lparr>now_read = 1700000100400, signin = NetworkError ''Failed to fetch'',
                   now_save = 1700000100500\<rparr>"

text \<open>
  A new instance over a storage area that holds one key, three calls, and a \<open>set\<close>
  that passes \<open>undefined\<close> for that key.
\<close>

definition new_storage :: "(string, string) secure_storage" where
  "new_storage = \<lparr>cache = Map.empty, area = [''clipforge_auth'' \<mapsto> ''a0'']\<rparr>"

definition three_calls :: "(string, string) storage_call list" where
  "three_calls = [Set [''plexToken'' \<mapsto> Some ''p1''] True,
                  Get [''clipforge_auth''] True,
                  Remove [''clipforge_auth''] True]"

definition undefined_set :: "(string, string) storage_call list" where
  "undefined_set = [Set [''clipforge_auth'' \<mapsto> None] True]"

section \<open>Properties: media tokens of the web application\<close>

text \<open>
  Claim C8. When the cache holds an entry for the key of \<open>(resourceType, resourceId)\<close>
  whose \<open>expiresAt\<close> is strictly later than the reading of \<open>Date.now()\<close>,
  \<open>getMediaToken\<close> returns the cached token and leaves the whole state as it was: no
  request is sent and the cache is unchanged.
\<close>

theorem getMediaToken_cache_hit:
  assumes "mediaTokenCache st (resourceType @ '':'' @ resourceId) = Some cached"
      and "expiresAt cached > now_check env"
  shows "getMediaToken env resourceId resourceType st = (token cached, st)
         \<and> sent (snd (getMediaToken env resourceId resourceType st)) = sent st
         \<and> mediaTokenCache (snd (getMediaToken env resourceId resourceType st))
             = mediaTokenCache st"
  using assms by (simp add: getMediaToken_def)

theorem getMediaToken_cache_hit_witness:
  "mediaTokenCache cached_app (''video'' @ '':'' @ ''clip_2'')
     = Some \<lparr>token = Some ''mt_2'', expiresAt = 1700000600000\<rparr>
   \<and> expiresAt \<lparr>token = Some ''mt_2'', expiresAt = 1700000600000\<rparr> > now_check offline_env
   \<and> getMediaToken offline_env ''clip_2'' ''video'' cached_app = (Some ''mt_2'', cached_app)
   \<and> sent (snd (getMediaToken offline_env ''clip_2'' ''video'' cached_app)) = []"
  using getMediaToken_cache_hit [of cached_app "''video''" "''clip_2''"
          "\<lparr>token = Some ''mt_2'', expiresAt = 1700000600000\<rparr>" offline_env]
  by (simp add: cached_app_def fresh_app_def offline_env_def)

lemma safeFetch_fst:
  "fst (safeFetch dc out url opts st) =
     (case out of NetworkError e \<Rightarrow> Inl e | Responded r \<Rightarrow> Inr r)"
  by (simp add: safeFetch_def Let_def split: prod.splits fetch_outcome.splits)

lemma request_failure_None:
  assumes "(\<exists>e. token_fetch env = NetworkError e)
           \<or> (\<exists>r. token_fetch env = Responded r \<and> \<not> ok r)"
  shows "fst (getMediaToken_request env key rid rty st) = None"
proof -
  let ?call = "safeFetch (cookie_jar env) (token_fetch env) ''/api/v1/auth/media-token''
              \<lparr>http_method = Some ''POST'',
               headers = [''Content-Type'' \<mapsto> ''application/x-www-form-urlencoded''],
               credentials = None, mode = None,
               body = FormBody [(''resource_id'', rid),
                                (''resource_type'', rty)]\<rparr> st"
  obtain res st1 where sf: "?call = (res, st1)"
    by (cases ?call)
  have "fst ?call = (case token_fetch env of NetworkError e \<Rightarrow> Inl e | Responded r \<Rightarrow> Inr r)"
    by (rule safeFetch_fst)
  with sf have res: "res = (case token_fetch env of NetworkError e \<Rightarrow> Inl e | Responded r \<Rightarrow> Inr r)"
    by simp
  from assms show ?thesis
  proof
    assume "\<exists>e. token_fetch env = NetworkError e"
    then show ?thesis using sf res by (auto simp: getMediaToken_request_def)
  next
    assume "\<exists>r. token_fetch env = Responded r \<and> \<not> ok r"
    then show ?thesis using sf res by (auto simp: getMediaToken_request_def)
  qed
qed

lemma getMediaUrl_no_token:
  "getMediaUrl base rid rty None dl =
     (if dl then base @ (if CHR ''?'' \<in> set base then ''&'' else ''?'') @ ''download=true''
      else base)"
  by (cases dl) (simp_all add: getMediaUrl_def form_encode_def form_encode_char_def)

text \<open>
  Claim C10. When the request for a media token is made (no unexpired entry is cached)
  and fails with a network error or with a status outside 200..299 other than 401,
  \<open>getMediaToken\<close> returns \<open>null\<close>, and \<open>getSecureMediaUrl\<close> returns the base URL with
  no \<open>token\<close> parameter: the base URL itself, or the base URL followed by
  \<open>download=true\<close> when the URL is asked for download.
\<close>

theorem media_token_failure_degrades:
  assumes miss: "\<forall>c. mediaTokenCache st (rty @ '':'' @ rid) = Some c
                      \<longrightarrow> expiresAt c \<le> now_check env"
      and fail: "(\<exists>e. token_fetch env = NetworkError e)
                 \<or> (\<exists>r. token_fetch env = Responded r \<and> \<not> ok r \<and> status r \<noteq> 401)"
  shows "fst (getMediaToken env rid rty st) = None \<and>
         fst (getSecureMediaUrl env base rid rty dl st) =
           (if dl then base @ (if CHR ''?'' \<in> set base then ''&'' else ''?'') @ ''download=true''
            else base)"
proof -
  from fail have f: "(\<exists>e. token_fetch env = NetworkError e)
                     \<or> (\<exists>r. token_fetch env = Responded r \<and> \<not> ok r)"
    by blast
  have req: "getMediaToken env rid rty st
               = getMediaToken_request env (rty @ '':'' @ rid) rid rty st"
    using miss by (auto simp: getMediaToken_def Let_def split: option.splits)
  have n: "fst (getMediaToken env rid rty st) = None"
    using request_failure_None [OF f] req by simp
  obtain tok st1 where p: "getMediaToken env rid rty st = (tok, st1)"
    by (cases "getMediaToken env rid rty st")
  with n have "tok = None" by simp
  with p have "fst (getSecureMediaUrl env base rid rty dl st) = getMediaUrl base rid rty None dl"
    by (simp add: getSecureMediaUrl_def)
  with n show ?thesis
    by (simp only: getMediaUrl_no_token)
qed

theorem media_token_failure_degrades_witness:
  "mediaTokenCache fresh_app (''video'' @ '':'' @ ''clip_9'') = None
   \<and> token_fetch offline_env = NetworkError ''Failed to fetch''
   \<and> fst (getMediaToken offline_env ''clip_9'' ''video'' fresh_app) = None
   \<and> fst (getSecureMediaUrl offline_env ''/clips/9.mp4'' ''clip_9'' ''video'' True fresh_app)
        = ''/clips/9.mp4?download=true''"
proof -
  have h1: "\<forall>c. mediaTokenCache fresh_app (''video'' @ '':'' @ ''clip_9'') = Some c
          \<longrightarrow> expiresAt c \<le> now_check offline_env"
    by (simp add: fresh_app_def)
  have h2: "(\<exists>e. token_fetch offline_env = NetworkError e)
       \<or> (\<exists>r. token_fetch offline_env = Responded r \<and> \<not> ok r \<and> status r \<noteq> 401)"
    by (simp add: offline_env_def)
  show ?thesis
    using media_token_failure_degrades [OF h1 h2, of "''/clips/9.mp4''" True]
    by (simp add: fresh_app_def offline_env_def)
qed

section \<open>Properties: the anti-forgery header\<close>

lemma getCookie_empty: "getCookie '''' ''csrf_token'' = None"
  by (simp add: getCookie_def)

lemma getCookie_abc: "getCookie ''theme=dark; csrf_token=abc'' ''csrf_token'' = Some ''abc''"
  by (simp add: getCookie_def)

lemma is_mutating_POST: "is_mutating (Some ''POST'')"
  by (simp add: is_mutating_def toUpperCase_def upper_char_def)

text \<open>
  Claim C5, as stated, fails: a \<open>POST\<close> sent through \<open>safeFetch\<close> while the page has no
  \<open>csrf_token\<close> cookie goes out without the \<open>X-CSRF-Token\<close> header.
\<close>

theorem safeFetch_post_without_cookie_counterexample:
  "is_mutating (http_method post_options) \<and>
   sent (snd (safeFetch '''' (NetworkError ''Failed to fetch'' :: unit fetch_outcome)
                ''/api/v1/clips/7'' post_options fresh_app))
     = [(''/api/v1/clips/7'', post_options\<lparr>credentials := Some ''include''\<rparr>)] \<and>
   headers (post_options\<lparr>credentials := Some ''include''\<rparr>) ''X-CSRF-Token'' = None"
  by (simp add: safeFetch_def post_options_def is_mutating_POST getCSRFHeaders_def
        ensureCSRFToken_def getCookie_empty truthy_def fresh_app_def)

text \<open>
  Claim C5, amended. \<open>safeFetch\<close> sends exactly one request, and it sets the
  \<open>X-CSRF-Token\<close> header exactly when the method is, in any letter case, \<open>POST\<close>,
  \<open>PUT\<close>, \<open>DELETE\<close> or \<open>PATCH\<close> and \<open>getCookie('csrf_token')\<close> yields a non-empty value
  at the call; the header then equals that cookie value, whatever the variable
  \<open>csrfToken\<close> held before. Every other header goes out as the caller passed it, and
  in every other case all headers do; the method, the mode and the body are never
  changed.
\<close>

theorem safeFetch_csrf_header:
  "\<exists>opts'. sent (snd (safeFetch dc out url opts st)) = sent st @ [(url, opts')] \<and>
     headers opts' ''X-CSRF-Token'' =
        (if is_mutating (http_method opts) \<and> truthy (getCookie dc ''csrf_token'')
         then getCookie dc ''csrf_token'' else headers opts ''X-CSRF-Token'') \<and>
     headers opts' =
        (if is_mutating (http_method opts) \<and> truthy (getCookie dc ''csrf_token'')
         then (headers opts)(''X-CSRF-Token'' := getCookie dc ''csrf_token'')
         else headers opts) \<and>
     http_method opts' = http_method opts \<and> mode opts' = mode opts \<and>
     body opts' = body opts"
  by (cases "getCookie dc ''csrf_token''")
     (auto simp: safeFetch_def Let_def getCSRFHeaders_def ensureCSRFToken_def
        updateCSRFToken_def truthy_def split: prod.splits fetch_outcome.splits)

theorem safeFetch_csrf_header_witness:
  "\<exists>opts'. sent (snd (safeFetch ''theme=dark; csrf_token=abc''
                         (NetworkError ''Failed to fetch'' :: unit fetch_outcome)
                         ''/api/v1/clips/7'' json_post_options
                         (fresh_app\<lparr>csrfToken := Some ''stale''\<rparr>)))
              = [(''/api/v1/clips/7'', opts')] \<and>
            headers opts' ''X-CSRF-Token'' = Some ''abc'' \<and>
            headers opts' ''Content-Type'' = Some ''application/json'' \<and>
            http_method opts' = Some ''POST''"
  using safeFetch_csrf_header [of "''theme=dark; csrf_token=abc''"
          "NetworkError ''Failed to fetch'' :: unit fetch_outcome" "''/api/v1/clips/7''"
          json_post_options "fresh_app\<lparr>csrfToken := Some ''stale''\<rparr>"]
  by (auto simp: getCookie_abc is_mutating_POST json_post_options_def post_options_def
        truthy_def fresh_app_def)

section \<open>Properties: media errors\<close>

lemma safeFetch_effect:
  assumes "safeFetch dc out url opts st = (res, st1)"
  shows "(\<exists>opts'. sent st1 = sent st @ [(url, opts')])
         \<and> mediaTokenCache st1 = mediaTokenCache st
         \<and> alerts st1 = alerts st
         \<and> recentlyCreatedClips st1 = recentlyCreatedClips st
         \<and> location_href st1 = location_href st
         \<and> res = (case out of NetworkError e \<Rightarrow> Inl e | Responded r \<Rightarrow> Inr r)"
  using assms
  by (cases "getCookie dc ''csrf_token''"; cases out)
     (auto simp: safeFetch_def Let_def getCSRFHeaders_def ensureCSRFToken_def
        updateCSRFToken_def truthy_def split: if_splits)

lemma getMediaToken_request_effect:
  assumes "getMediaToken_request env key rid rty st = (tok, st2)"
  shows "tok = fetched_token env
         \<and> (\<exists>opts'. sent st2 = sent st @ [(''/api/v1/auth/media-token'', opts')])
         \<and> mediaTokenCache st2 =
             (case fetched_entry env of None \<Rightarrow> mediaTokenCache st
              | Some e \<Rightarrow> (mediaTokenCache st)(key \<mapsto> e))
         \<and> alerts st2 = alerts st
         \<and> recentlyCreatedClips st2 = recentlyCreatedClips st"
proof -
  let ?call = "safeFetch (cookie_jar env) (token_fetch env) ''/api/v1/auth/media-token''
              \<lparr>http_method = Some ''POST'',
               headers = [''Content-Type'' \<mapsto> ''application/x-www-form-urlencoded''],
               credentials = None, mode = None,
               body = FormBody [(''resource_id'', rid),
                                (''resource_type'', rty)]\<rparr> st"
  obtain res st1 where sf: "?call = (res, st1)"
    by (cases ?call)
  note eff = safeFetch_effect [OF sf]
  show ?thesis
  proof (cases "token_fetch env")
    case (NetworkError e)
    with eff sf assms show ?thesis
      by (auto simp: getMediaToken_request_def fetched_token_def fetched_entry_def)
  next
    case (Responded r)
    with eff sf assms show ?thesis
      by (cases "json r")
         (auto simp: getMediaToken_request_def fetched_token_def fetched_entry_def
            split: if_splits)
  qed
qed

lemma isClipRecentlyCreated_effect:
  assumes "isClipRecentlyCreated now rid st = (b, st1)"
  shows "sent st1 = sent st \<and> mediaTokenCache st1 = mediaTokenCache st
         \<and> alerts st1 = alerts st"
  using assms
  by (auto simp: isClipRecentlyCreated_def split: option.splits if_splits)

lemma getMediaToken_after_eviction:
  "getMediaToken env rid rty (st\<lparr>mediaTokenCache := (mediaTokenCache st)(rty @ '':'' @ rid := None)\<rparr>)
     = getMediaToken_request env (rty @ '':'' @ rid) rid rty
         (st\<lparr>mediaTokenCache := (mediaTokenCache st)(rty @ '':'' @ rid := None)\<rparr>)"
  by (simp add: getMediaToken_def Let_def)

lemma handleMediaError_effect:
  assumes c4: "code err = 4"
      and run: "handleMediaError env (Some err) rid rty (Some f) st pl = (b, st2, pl2)"
  shows "(\<exists>opts'. sent st2 = sent st @ [(''/api/v1/auth/media-token'', opts')])
         \<and> mediaTokenCache st2 = (mediaTokenCache st)(rty @ '':'' @ rid := fetched_entry env)
         \<and> (if truthy (fetched_token env)
             then (b, pl2) = f (fetched_token env) pl \<and> alerts st2 = alerts st
             else b = False \<and> pl2 = pl
                  \<and> alerts st2 = alerts st
                       @ [(''Session expired. Please refresh the page.'', ''Error'')])"
proof -
  let ?st1 = "st\<lparr>mediaTokenCache := (mediaTokenCache st)(rty @ '':'' @ rid := None)\<rparr>"
  obtain tok st3 where g: "getMediaToken env rid rty ?st1 = (tok, st3)"
    by (cases "getMediaToken env rid rty ?st1")
  then have "getMediaToken_request env (rty @ '':'' @ rid) rid rty ?st1 = (tok, st3)"
    by (simp only: getMediaToken_after_eviction)
  note eff = getMediaToken_request_effect [OF this]
  have cache: "mediaTokenCache st3 = (mediaTokenCache st)(rty @ '':'' @ rid := fetched_entry env)"
    using eff by (cases "fetched_entry env") auto
  show ?thesis
  proof (cases "truthy (fetched_token env)")
    case True
    with c4 run g eff cache show ?thesis
      by (auto simp: handleMediaError_def Let_def split: prod.splits)
  next
    case False
    with c4 run g eff cache show ?thesis
      by (auto simp: handleMediaError_def Let_def showAlert_def split: prod.splits)
  qed
qed

lemma retry_with_token_never_reloads:
  "retry_with_token resourceId resourceType newToken pl = (False, pl)"
  by (simp add: retry_with_token_def player_src_def property_src_def truthy_def)

lemma media_error_evicts_without_reload:
  assumes c4: "code err = 4"
      and notrecent: "fst (isClipRecentlyCreated now rid st) = False"
  shows "(\<exists>opts'. sent (fst (videoPlayer_onError now env (Some err) rid rty st pl))
                     = sent st @ [(''/api/v1/auth/media-token'', opts')])
         \<and> mediaTokenCache (fst (videoPlayer_onError now env (Some err) rid rty st pl))
             = (mediaTokenCache st)(rty @ '':'' @ rid := fetched_entry env)
         \<and> snd (videoPlayer_onError now env (Some err) rid rty st pl) = pl
         \<and> alerts (fst (videoPlayer_onError now env (Some err) rid rty st pl))
             = alerts st
               @ (if truthy (fetched_token env) then []
                  else [(''Session expired. Please refresh the page.'', ''Error'')])
               @ [(''Failed to load video. Please refresh the page.'', ''Error'')]"
proof -
  obtain st1 where r: "isClipRecentlyCreated now rid st = (False, st1)"
    using notrecent by (cases "isClipRecentlyCreated now rid st") simp
  note e1 = isClipRecentlyCreated_effect [OF r]
  let ?f = "retry_with_token rid rty"
  obtain b st2 pl2 where h: "handleMediaError env (Some err) rid rty (Some ?f) st1 pl = (b, st2, pl2)"
    by (cases "handleMediaError env (Some err) rid rty (Some ?f) st1 pl") auto
  note e2 = handleMediaError_effect [OF c4 h]
  have nb: "b = False \<and> pl2 = pl"
    using e2 by (cases "truthy (fetched_token env)")
                (simp_all add: retry_with_token_never_reloads)
  have res: "videoPlayer_onError now env (Some err) rid rty st pl =
               (showAlert ''Failed to load video. Please refresh the page.'' ''Error'' st2, pl)"
    using c4 r h nb by (simp add: videoPlayer_onError_def)
  show ?thesis
    using e1 e2 nb by (cases "truthy (fetched_token env)") (simp_all add: res showAlert_def)
qed

text \<open>
  Claim C3 at a player whose cached token the media server rejects, while the token
  endpoint answers. On the error of code 4 the listener evicts the entry of
  \<open>video:clip_3\<close>, sends one media-token request and caches the fresh token; the retry
  function then finds no \<open>.src\<close> on the string that \<open>player.src()\<close> returns, so the
  player is not reloaded and \<open>Failed to load video\<close> is shown. The claim says that one
  retry with the fresh token is made.
\<close>

theorem videojs_error_evicts_but_never_reloads:
  "mediaTokenCache stale_app ''video:clip_3''
     = Some \<lparr>token = Some ''mt_old'', expiresAt = 1700003000000\<rparr>
   \<and> fetched_token (online_env 1700000001000 ''mt_new1'') = Some ''mt_new1''
   \<and> length (sent (fst (videoPlayer_onError 1700000001000
                           (online_env 1700000001000 ''mt_new1'') (Some src_not_supported)
                           ''clip_3'' ''video'' stale_app stale_player))) = 1
   \<and> mediaTokenCache (fst (videoPlayer_onError 1700000001000
                              (online_env 1700000001000 ''mt_new1'') (Some src_not_supported)
                              ''clip_3'' ''video'' stale_app stale_player)) ''video:clip_3''
       = Some \<lparr>token = Some ''mt_new1'', expiresAt = 1700003001200\<rparr>
   \<and> snd (videoPlayer_onError 1700000001000
             (online_env 1700000001000 ''mt_new1'') (Some src_not_supported)
             ''clip_3'' ''video'' stale_app stale_player) = stale_player
   \<and> loaded stale_player = []
   \<and> alerts (fst (videoPlayer_onError 1700000001000
                     (online_env 1700000001000 ''mt_new1'') (Some src_not_supported)
                     ''clip_3'' ''video'' stale_app stale_player))
       = [(''Failed to load video. Please refresh the page.'', ''Error'')]"
proof -
  have h1: "code src_not_supported = 4"
    by (simp add: src_not_supported_def)
  have h2: "fst (isClipRecentlyCreated 1700000001000 ''clip_3'' stale_app) = False"
    by (simp add: isClipRecentlyCreated_def stale_app_def fresh_app_def)
  have tok: "fetched_token (online_env 1700000001000 ''mt_new1'') = Some ''mt_new1''"
    by (simp add: fetched_token_def online_env_def token_response_def ok_def)
  have ent: "fetched_entry (online_env 1700000001000 ''mt_new1'')
               = Some \<lparr>token = Some ''mt_new1'', expiresAt = 1700003001200\<rparr>"
    by (simp add: fetched_entry_def online_env_def token_response_def ok_def)
  have old: "mediaTokenCache stale_app ''video:clip_3''
               = Some \<lparr>token = Some ''mt_old'', expiresAt = 1700003000000\<rparr>"
    and al: "alerts stale_app = []" and se: "sent stale_app = []"
    by (simp_all add: stale_app_def fresh_app_def)
  have ld: "loaded stale_player = []"
    by (simp add: stale_player_def)
  from media_error_evicts_without_reload [OF h1 h2,
         where env = "online_env 1700000001000 ''mt_new1''" and rty = "''video''"
           and pl = stale_player]
  show ?thesis
    by (auto simp: tok ent old al se ld truthy_def)
qed

text \<open>
  Claim C4, amended. A clip marked by \<open>markClipAsRecentlyCreated\<close> at time \<open>t0\<close> carries
  the expiry \<open>t0 + 300000\<close>. While that mark is in place, an error of code 4 that a
  player reports to the listener of \<open>setupVideoPlayerErrorHandling\<close> (installed when
  the player is made with a resource id and type) at any time before the expiry, in
  particular within two minutes of the creation, only shows the \<open>Video Not Ready\<close>
  alert: no request is sent, the token cache is unchanged and the player is not
  reloaded. An error of another code, and any error of a player made without resource
  id and type, changes nothing and shows nothing.
\<close>

theorem recently_created_failure_is_not_ready:
  assumes marked: "recentlyCreatedClips st rid
                     = recentlyCreatedClips (markClipAsRecentlyCreated t0 rid st0) rid"
      and t0: "0 \<le> t0"
      and window: "now < t0 + 5 * 60 * 1000"
      and c4: "code err = 4"
      and resource: "rid \<noteq> []" "rty \<noteq> []"
      and other: "code err' \<noteq> 4"
  shows "videoPlayer_onError now env (Some err) rid rty st pl
           = (showAlert ''Video is still processing. Please try again in a few moments.''
                ''Video Not Ready'' st, pl)
         \<and> sent (fst (videoPlayer_onError now env (Some err) rid rty st pl)) = sent st
         \<and> mediaTokenCache (fst (videoPlayer_onError now env (Some err) rid rty st pl))
             = mediaTokenCache st
         \<and> alerts (fst (videoPlayer_onError now env (Some err) rid rty st pl))
             = alerts st @ [(''Video is still processing. Please try again in a few moments.'',
                             ''Video Not Ready'')]
         \<and> initializeVideoJSPlayer_onError (Some rid) (Some rty) now env (Some err) st pl
             = videoPlayer_onError now env (Some err) rid rty st pl
         \<and> videoPlayer_onError now env (Some err') rid rty st pl = (st, pl)
         \<and> initializeVideoJSPlayer_onError None None now env (Some err) st pl = (st, pl)"
proof -
  from marked have m: "recentlyCreatedClips st rid = Some (t0 + 5 * 60 * 1000)"
    by (simp add: markClipAsRecentlyCreated_def)
  with t0 window have "isClipRecentlyCreated now rid st = (True, st)"
    by (simp add: isClipRecentlyCreated_def)
  with c4 have "videoPlayer_onError now env (Some err) rid rty st pl
           = (showAlert ''Video is still processing. Please try again in a few moments.''
                ''Video Not Ready'' st, pl)"
    by (simp add: videoPlayer_onError_def)
  moreover have "videoPlayer_onError now env (Some err') rid rty st pl = (st, pl)"
    using other by (simp add: videoPlayer_onError_def)
  ultimately show ?thesis
    using resource by (simp add: showAlert_def initializeVideoJSPlayer_onError_def)
qed

theorem recently_created_failure_is_not_ready_witness:
  "(0::int) \<le> 1700000000000
   \<and> (1700000090000::int) < 1700000000000 + 5 * 60 * 1000
   \<and> code src_not_supported = 4
   \<and> ''clip_1'' \<noteq> [] \<and> ''video'' \<noteq> []
   \<and> code network_error \<noteq> 4
   \<and> videoPlayer_onError 1700000090000 offline_env (Some src_not_supported) ''clip_1'' ''video''
        (markClipAsRecentlyCreated 1700000000000 ''clip_1'' fresh_app) stale_player
       = (showAlert ''Video is still processing. Please try again in a few moments.''
            ''Video Not Ready'' (markClipAsRecentlyCreated 1700000000000 ''clip_1'' fresh_app),
          stale_player)
   \<and> sent (fst (videoPlayer_onError 1700000090000 offline_env (Some src_not_supported)
                   ''clip_1'' ''video''
                   (markClipAsRecentlyCreated 1700000000000 ''clip_1'' fresh_app) stale_player))
       = []"
proof -
  have h1: "recentlyCreatedClips (markClipAsRecentlyCreated 1700000000000 ''clip_1'' fresh_app)
              ''clip_1''
            = recentlyCreatedClips (markClipAsRecentlyCreated 1700000000000 ''clip_1'' fresh_app)
                ''clip_1''"
    by (rule refl)
  have h2: "(0::int) \<le> 1700000000000" by simp
  have h3: "(1700000090000::int) < 1700000000000 + 5 * 60 * 1000" by simp
  have h4: "code src_not_supported = 4" by (simp add: src_not_supported_def)
  have h5: "''clip_1'' \<noteq> []" and h6: "''video'' \<noteq> []" by simp_all
  have h7: "code network_error \<noteq> 4" by (simp add: network_error_def)
  show ?thesis
    using recently_created_failure_is_not_ready [OF h1 h2 h3 h4 h5 h6 h7,
            where env = offline_env and pl = stale_player]
    by (simp add: h4 h7 markClipAsRecentlyCreated_def fresh_app_def showAlert_def)
qed

text \<open>
  Claim C4, as stated, fails: 90 seconds after a clip is marked, an error of code 2 of
  its player shows nothing, and neither does an error of code 4 of a player that
  \<open>initializeVideoJSPlayer\<close> made without a resource id (the preview player).
\<close>

theorem marked_clip_failure_not_surfaced_counterexample:
  "recentlyCreatedClips (markClipAsRecentlyCreated 1700000000000 ''clip_1'' fresh_app) ''clip_1''
     = Some 1700000300000
   \<and> alerts (fst (videoPlayer_onError 1700000090000 offline_env (Some network_error)
                     ''clip_1'' ''video''
                     (markClipAsRecentlyCreated 1700000000000 ''clip_1'' fresh_app)
                     stale_player)) = []
   \<and> alerts (fst (initializeVideoJSPlayer_onError None None 1700000090000 offline_env
                     (Some src_not_supported)
                     (markClipAsRecentlyCreated 1700000000000 ''clip_1'' fresh_app)
                     stale_player)) = []"
  by (simp add: videoPlayer_onError_def initializeVideoJSPlayer_onError_def network_error_def
        markClipAsRecentlyCreated_def fresh_app_def)

section \<open>Properties: the PIN handshake\<close>

lemma createPlexPin_log:
  "\<exists>rq. snd (createPlexPin out log) = log @ [rq] \<and> no_csrf rq"
  by (cases out) (auto simp: createPlexPin_def no_csrf_def Let_def)

lemma checkPinStatus_log:
  "\<exists>rq. snd (checkPinStatus pinId out log) = log @ [rq] \<and> no_csrf rq"
  by (cases out) (auto simp: checkPinStatus_def no_csrf_def Let_def)

lemma createAuthPin_log:
  "\<exists>rq. snd (createAuthPin out ap log) = log @ [rq] \<and> no_csrf rq"
  by (cases out) (auto simp: createAuthPin_def no_csrf_def Let_def split: option.splits)

lemma checkAuthPin_log:
  "\<exists>rq. snd (checkAuthPin pinId out ap log) = log @ [rq] \<and> no_csrf rq"
  by (cases out) (auto simp: checkAuthPin_def no_csrf_def Let_def split: option.splits)

lemma plexOAuth_poll_no_csrf:
  "list_all no_csrf log \<Longrightarrow> list_all no_csrf (snd (snd (plexOAuth_poll env pinId k log)))"
proof (induction env pinId k log rule: plexOAuth_poll.induct)
  case (1 env pinId k log)
  obtain st log1 where c: "checkPinStatus pinId (status_at env k) log = (st, log1)"
    by (cases "checkPinStatus pinId (status_at env k) log")
  from checkPinStatus_log [of pinId "status_at env k" log] c
  obtain rq where "log1 = log @ [rq]" "no_csrf rq" by auto
  with "1.prems" have l1: "list_all no_csrf log1" by simp
  show ?case
    using 1 c l1
    by (subst plexOAuth_poll.simps) (auto split: option.splits)
qed

lemma pollForToken_ticks_no_csrf:
  "list_all no_csrf log \<Longrightarrow>
   list_all no_csrf (snd (snd (pollForToken_ticks poll pinId maxAttempts attempts ap log)))"
proof (induction poll pinId maxAttempts attempts ap log rule: pollForToken_ticks.induct)
  case (1 poll pinId maxAttempts attempts ap log)
  obtain res log1 where c: "checkAuthPin pinId (poll (attempts + 1)) ap log = (res, log1)"
    by (cases "checkAuthPin pinId (poll (attempts + 1)) ap log")
  from checkAuthPin_log [of pinId "poll (attempts + 1)" ap log] c
  obtain rq where "log1 = log @ [rq]" "no_csrf rq" by auto
  with "1.prems" have l1: "list_all no_csrf log1" by simp
  show ?case
    using 1 c l1
    by (subst pollForToken_ticks.simps) (auto split: option.splits sum.splits)
qed

text \<open>
  Claim C6. The request that creates a PIN and the request that polls its status go
  out without the anti-forgery header, in the web application (\<open>createPlexPin\<close>,
  \<open>checkPinStatus\<close>) and in the extension (\<open>createAuthPin\<close>, \<open>checkAuthPin\<close>), whatever
  the outcome; and so does every request of a whole run of \<open>plexOAuth\<close> and of
  \<open>pollForToken\<close>.
\<close>

theorem pin_requests_carry_no_csrf_header:
  "(\<exists>rq. snd (createPlexPin out1 log) = log @ [rq] \<and> no_csrf rq)
   \<and> (\<exists>rq. snd (checkPinStatus pinId out2 log) = log @ [rq] \<and> no_csrf rq)
   \<and> (\<exists>rq. snd (createAuthPin out1 ap log) = log @ [rq] \<and> no_csrf rq)
   \<and> (\<exists>rq. snd (checkAuthPin pinId out2 ap log) = log @ [rq] \<and> no_csrf rq)
   \<and> list_all no_csrf (snd (snd (plexOAuth env)))
   \<and> list_all no_csrf (snd (snd (pollForToken poll pinId maxAttempts ap [])))"
proof -
  have web: "list_all no_csrf (snd (snd (plexOAuth env)))"
  proof -
    obtain p lg where c: "createPlexPin (pin env) [] = (p, lg)"
      by (cases "createPlexPin (pin env) []")
    from createPlexPin_log [of "pin env" "[]"] c have lg: "list_all no_csrf lg" by auto
    show ?thesis
      using c lg plexOAuth_poll_no_csrf [OF lg]
      by (auto simp: plexOAuth_def split: option.splits)
  qed
  have ext: "list_all no_csrf (snd (snd (pollForToken poll pinId maxAttempts ap [])))"
    using pollForToken_ticks_no_csrf [of "[]"] by (simp add: pollForToken_def)
  show ?thesis
    using createPlexPin_log checkPinStatus_log createAuthPin_log checkAuthPin_log web ext
    by blast
qed

lemma checkAuthPin_pending:
  assumes "\<not> poll_resolves out"
  shows "\<exists>rq. (\<exists>e. checkAuthPin pinId out ap log = (Inl e, log @ [rq]))
              \<or> (\<exists>resp. checkAuthPin pinId out ap log = (Inr resp, log @ [rq])
                         \<and> \<not> truthy (auth_token resp))"
  using assms
  by (cases out)
     (auto simp: checkAuthPin_def poll_resolves_def Let_def truthy_def split: option.splits)




lemma popup_closed_mono: "popup_closed env t \<Longrightarrow> t \<le> t' \<Longrightarrow> popup_closed env t'"
  by (auto simp: popup_closed_def split: option.splits)

lemma checkPinStatus_pending:
  assumes "\<not> status_resolves out"
  shows "\<exists>st rq. checkPinStatus pinId out log = (st, log @ [rq])
                 \<and> (case st of None \<Rightarrow> True
                      | Some s \<Rightarrow> \<not> (authenticated s \<and> truthy (auth_token s)))"
  using assms
  by (cases out)
     (auto simp: checkPinStatus_def status_resolves_def Let_def split: option.splits)

lemma plexOAuth_poll_step:
  assumes open_k: "\<not> popup_closed env (1000 * k)"
      and k: "k < 300"
      and pending: "\<not> status_resolves (status_at env k)"
  shows "\<exists>rq. plexOAuth_poll env pinId k log = plexOAuth_poll env pinId (k + 1) (log @ [rq])"
proof -
  from checkPinStatus_pending [OF pending, where pinId = pinId and log = log]
  obtain st rq where c: "checkPinStatus pinId (status_at env k) log = (st, log @ [rq])"
    and n: "case st of None \<Rightarrow> True
            | Some s \<Rightarrow> \<not> (authenticated s \<and> truthy (auth_token s))"
    by blast
  have "plexOAuth_poll env pinId k log = plexOAuth_poll env pinId (k + 1) (log @ [rq])"
    using open_k k c n
    by (subst plexOAuth_poll.simps) (auto split: option.splits)
  then show ?thesis by blast
qed

lemma plexOAuth_poll_reaches:
  "k \<le> K \<Longrightarrow> K \<le> 300 \<Longrightarrow>
   (\<And>j. k \<le> j \<Longrightarrow> j < K \<Longrightarrow> \<not> popup_closed env (1000 * j)) \<Longrightarrow>
   (\<And>j. k \<le> j \<Longrightarrow> j < K \<Longrightarrow> \<not> status_resolves (status_at env j)) \<Longrightarrow>
   \<exists>log'. plexOAuth_poll env pinId k log = plexOAuth_poll env pinId K log'
          \<and> length log' = length log + (K - k)"
proof (induction "K - k" arbitrary: k log)
  case 0
  then have "k = K" by simp
  then show ?case by (intro exI [of _ log]) simp
next
  case (Suc n)
  then have lt: "k < K" by simp
  with Suc.prems have k300: "k < 300" by simp
  from plexOAuth_poll_step [OF Suc.prems(3) [OF le_refl lt] k300 Suc.prems(4) [OF le_refl lt],
         where pinId = pinId and log = log]
  obtain rq where step: "plexOAuth_poll env pinId k log
                           = plexOAuth_poll env pinId (k + 1) (log @ [rq])"
    by blast
  have "n = K - (k + 1)" using Suc.hyps(2) by simp
  from Suc.hyps(1) [OF this, where log = "log @ [rq]"] lt Suc.prems
  obtain log' where "plexOAuth_poll env pinId (k + 1) (log @ [rq])
                       = plexOAuth_poll env pinId K log'"
    and "length log' = length (log @ [rq]) + (K - (k + 1))"
    by auto
  with step lt show ?case by auto
qed

lemma plexOAuth_poll_cancelled:
  assumes closed: "closed_time env = Some c"
      and before_timeout: "c \<le> 300000"
      and pending: "\<And>k. 1000 * k < c \<Longrightarrow> \<not> status_resolves (status_at env k)"
  shows "\<exists>log'. plexOAuth_poll env pinId 1 log
                   = (Failure ''Authentication cancelled'', 1000 * tick_after c, log')
                \<and> length log' = length log + (tick_after c - 1)"
proof -
  let ?K = "tick_after c"
  have K1: "1 \<le> ?K" and K300: "?K \<le> 300"
    using before_timeout by (auto simp: tick_after_def)
  have cK: "c \<le> 1000 * ?K"
    by (auto simp: tick_after_def max_def)
  have early: "\<And>j. 1 \<le> j \<Longrightarrow> j < ?K \<Longrightarrow> 1000 * j < c"
    by (auto simp: tick_after_def max_def split: if_splits)
  have open_j: "\<And>j. 1 \<le> j \<Longrightarrow> j < ?K \<Longrightarrow> \<not> popup_closed env (1000 * j)"
    using early closed by (fastforce simp: popup_closed_def)
  have pend_j: "\<And>j. 1 \<le> j \<Longrightarrow> j < ?K \<Longrightarrow> \<not> status_resolves (status_at env j)"
    using early pending by blast
  from plexOAuth_poll_reaches [OF K1 K300 open_j pend_j, where pinId = pinId and log = log]
  obtain log' where reach: "plexOAuth_poll env pinId 1 log = plexOAuth_poll env pinId ?K log'"
    and len: "length log' = length log + (?K - 1)"
    by blast
  have closedK: "popup_closed env (1000 * ?K)" and closedT: "popup_closed env 300000"
    using closed cK before_timeout by (auto simp: popup_closed_def)
  have "plexOAuth_poll env pinId ?K log'
          = (Failure ''Authentication cancelled'', 1000 * ?K, log')"
    using closedK closedT by (subst plexOAuth_poll.simps) simp
  with reach len show ?thesis
    by auto
qed

lemma pending_polls_unresolved: "\<not> status_resolves (pending_polls k)"
  by (simp add: status_resolves_def pending_polls_def pending_response_def)

text \<open>
  Claim C7. In the popup flow, when the user closes the popup at time \<open>c\<close> (not after
  the five-minute timer) and no status request answered before has resolved the PIN,
  \<open>plexOAuth\<close> reports \<open>Authentication cancelled\<close> at the first tick at or after \<open>c\<close>,
  hence at most one poll interval (1000 ms) after the close, and that tick sends no
  status request.
\<close>

theorem popup_close_cancels_within_one_interval:
  assumes closed: "closed_time env = Some c"
      and before_timeout: "c \<le> 300000"
      and pending: "\<And>k. 1000 * k < c \<Longrightarrow> \<not> status_resolves (status_at env k)"
      and popup: "popup_available env"
      and pin: "fst (createPlexPin (pin env) []) = Some pinData"
  shows "fst (plexOAuth env) = Failure ''Authentication cancelled''
         \<and> fst (snd (plexOAuth env)) = 1000 * tick_after c
         \<and> c \<le> fst (snd (plexOAuth env))
         \<and> fst (snd (plexOAuth env)) \<le> c + 1000
         \<and> length (snd (snd (plexOAuth env))) = tick_after c"
proof -
  obtain lg where c: "createPlexPin (pin env) [] = (Some pinData, lg)"
    using pin by (cases "createPlexPin (pin env) []") simp
  from createPlexPin_log [of "pin env" "[]"] c have lg: "length lg = 1"
    by auto
  from plexOAuth_poll_cancelled [OF closed before_timeout pending,
         where pinId = "pin_id pinData" and log = lg]
  obtain log' where r: "plexOAuth_poll env (pin_id pinData) 1 lg
                   = (Failure ''Authentication cancelled'', 1000 * tick_after c, log')"
    and len: "length log' = length lg + (tick_after c - 1)"
    by blast
  have run: "plexOAuth env = (Failure ''Authentication cancelled'', 1000 * tick_after c, log')"
    using c popup r by (simp add: plexOAuth_def)
  have "c \<le> 1000 * tick_after c" "1000 * tick_after c \<le> c + 1000" "1 \<le> tick_after c"
    by (auto simp: tick_after_def max_def)
  with run len lg show ?thesis
    by simp
qed

theorem popup_close_cancels_within_one_interval_witness:
  "closed_time closing_env = Some 4500
   \<and> (4500::nat) \<le> 300000
   \<and> (\<forall>k. \<not> status_resolves (status_at closing_env k))
   \<and> popup_available closing_env
   \<and> fst (createPlexPin (pin closing_env) []) = Some \<lparr>pin_id = ''abc'', pin_code = ''XYZ123''\<rparr>
   \<and> fst (plexOAuth closing_env) = Failure ''Authentication cancelled''
   \<and> fst (snd (plexOAuth closing_env)) = 5000
   \<and> length (snd (snd (plexOAuth closing_env))) = 5"
proof -
  have h1: "closed_time closing_env = Some 4500"
    by (simp add: closing_env_def)
  have h2: "(4500::nat) \<le> 300000" by simp
  have h3: "\<And>k. \<not> status_resolves (status_at closing_env k)"
    by (simp add: closing_env_def pending_polls_unresolved)
  have h4: "popup_available closing_env"
    by (simp add: closing_env_def)
  have h5: "fst (createPlexPin (pin closing_env) [])
              = Some \<lparr>pin_id = ''abc'', pin_code = ''XYZ123''\<rparr>"
    by (simp add: createPlexPin_def closing_env_def pin_response_def ok_def)
  have t: "tick_after 4500 = 5"
    by (simp add: tick_after_def)
  show ?thesis
    using popup_close_cancels_within_one_interval [where env = closing_env,
            OF h1 h2 h3 h4 h5] h1 h3 h4 h5
    by (simp add: t)
qed



lemma poll_run_append: "poll_run ap (es @ fs) s = poll_run ap fs (poll_run ap es s)"
  by (induction es arbitrary: s) simp_all




lemma pending_tick:
  assumes "\<not> poll_resolves out"
      and "i < length (poll_calls s)"
      and "poll_calls s ! i = \<lparr>call_pin = pinId, call_max = maxAttempts, call_attempts = a,
                                call_settled = None\<rparr>"
      and "i \<in> set (timers s)"
      and "a + 1 \<le> maxAttempts"
  shows "\<exists>rq. poll_step ap (Tick i out) s
                = s\<lparr>poll_calls := (poll_calls s)
                       [i := \<lparr>call_pin = pinId, call_max = maxAttempts, call_attempts = a + 1,
                               call_settled = None\<rparr>],
                     poll_net := poll_net s @ [rq]\<rparr>"
proof -
  from checkAuthPin_pending [OF assms(1), where pinId = pinId and ap = ap and log = "poll_net s"]
  obtain rq where rq:
    "(\<exists>e. checkAuthPin pinId out ap (poll_net s) = (Inl e, poll_net s @ [rq]))
     \<or> (\<exists>resp. checkAuthPin pinId out ap (poll_net s) = (Inr resp, poll_net s @ [rq])
                \<and> \<not> truthy (auth_token resp))"
    by blast
  have "poll_step ap (Tick i out) s
          = s\<lparr>poll_calls := (poll_calls s)
                 [i := \<lparr>call_pin = pinId, call_max = maxAttempts, call_attempts = a + 1,
                         call_settled = None\<rparr>],
               poll_net := poll_net s @ [rq]\<rparr>"
    using rq assms(2-5) by (auto simp: truthy_def Let_def split: option.splits)
  then show ?thesis
    by (rule exI)
qed

lemma pending_ticks:
  "(\<And>k. \<not> poll_resolves (poll k)) \<Longrightarrow> i < length (poll_calls s) \<Longrightarrow>
   poll_calls s ! i = \<lparr>call_pin = pinId, call_max = maxAttempts, call_attempts = a,
                        call_settled = None\<rparr> \<Longrightarrow>
   i \<in> set (timers s) \<Longrightarrow> a + n \<le> maxAttempts \<Longrightarrow>
   \<exists>log'. poll_run ap (own_ticks i poll a n) s
            = s\<lparr>poll_calls := (poll_calls s)
                   [i := \<lparr>call_pin = pinId, call_max = maxAttempts, call_attempts = a + n,
                           call_settled = None\<rparr>],
                 poll_net := log'\<rparr>
          \<and> length log' = length (poll_net s) + n"
proof (induction n arbitrary: a s)
  case 0
  from "0.prems"(3)
  have "(poll_calls s)[i := \<lparr>call_pin = pinId, call_max = maxAttempts, call_attempts = a,
                              call_settled = None\<rparr>] = poll_calls s"
    by (metis list_update_id)
  then show ?case
    by (auto intro!: exI [of _ "poll_net s"])
next
  case (Suc n)
  let ?c = "\<lparr>call_pin = pinId, call_max = maxAttempts, call_attempts = a + 1,
             call_settled = None\<rparr>"
  from Suc.prems(5) have le: "a + 1 \<le> maxAttempts" by simp
  from pending_tick [OF Suc.prems(1) Suc.prems(2) Suc.prems(3) Suc.prems(4) le,
         where ap = ap and k1 = "a + 1"]
  obtain rq where step: "poll_step ap (Tick i (poll (a + 1))) s
                           = s\<lparr>poll_calls := (poll_calls s)[i := ?c],
                                poll_net := poll_net s @ [rq]\<rparr>"
    by blast
  let ?s1 = "s\<lparr>poll_calls := (poll_calls s)[i := ?c], poll_net := poll_net s @ [rq]\<rparr>"
  have p2: "i < length (poll_calls ?s1)" using Suc.prems(2) by simp
  have p3: "poll_calls ?s1 ! i = ?c" using Suc.prems(2) by simp
  have p4: "i \<in> set (timers ?s1)" using Suc.prems(4) by simp
  have p5: "(a + 1) + n \<le> maxAttempts" using Suc.prems(5) by simp
  from Suc.IH [OF Suc.prems(1) p2 p3 p4 p5]
  obtain log' where run: "poll_run ap (own_ticks i poll (a + 1) n) ?s1
            = ?s1\<lparr>poll_calls := (poll_calls ?s1)
                   [i := \<lparr>call_pin = pinId, call_max = maxAttempts, call_attempts = (a + 1) + n,
                           call_settled = None\<rparr>],
                 poll_net := log'\<rparr>"
    and len: "length log' = length (poll_net ?s1) + n"
    by blast
  have "poll_run ap (own_ticks i poll a (Suc n)) s
          = poll_run ap (own_ticks i poll (a + 1) n) (poll_step ap (Tick i (poll (a + 1))) s)"
    by simp
  also have "\<dots> = poll_run ap (own_ticks i poll (a + 1) n) ?s1"
    by (simp only: step)
  also note run
  finally show ?case
    using len by (auto intro!: exI [of _ log'])
qed

text \<open>
  A call whose timer is cleared before its promise is settled never settles, whatever
  happens next on the manager.
\<close>

lemma cleared_timer_step:
  "i < length (poll_calls s) \<Longrightarrow> i \<notin> set (timers s) \<Longrightarrow>
   call_settled (poll_calls s ! i) = None \<Longrightarrow>
   i < length (poll_calls (poll_step ap e s)) \<and> i \<notin> set (timers (poll_step ap e s))
   \<and> call_settled (poll_calls (poll_step ap e s) ! i) = None"
  by (cases e)
     (auto simp: Let_def clearInterval_def nth_append nth_list_update
           split: prod.splits sum.splits option.splits)

lemma cleared_timer_never_settles:
  "i < length (poll_calls s) \<Longrightarrow> i \<notin> set (timers s) \<Longrightarrow>
   call_settled (poll_calls s ! i) = None \<Longrightarrow>
   call_settled (poll_calls (poll_run ap es s) ! i) = None"
proof (induction es arbitrary: s)
  case Nil
  then show ?case by simp
next
  case (Cons e es)
  from cleared_timer_step [OF Cons.prems, of ap e] Cons.IH [of "poll_step ap e s"]
  show ?case by simp
qed


text \<open>
  Two calls that overlap. The second call is made between tick 60 and tick 61 of the
  first; tick 61 of the first call clears the timer \<open>this.pollInterval\<close> names, which
  is the timer of the second call, and the promise of the second call is never
  settled.
\<close>

lemma overlapping_call_never_settles:
  assumes pending: "\<And>k. \<not> poll_resolves (poll k)"
      and idle: "timers s = []"
  shows "call_settled (poll_calls (poll_run ap
             (Call pinA 60 # own_ticks (length (poll_calls s)) poll 0 60
                @ Call pinB 60 # Tick (length (poll_calls s)) (poll 61) # es) s)
           ! (length (poll_calls s) + 1)) = None"
proof -
  let ?i = "length (poll_calls s)"
  let ?c = "\<lparr>call_pin = pinA, call_max = 60, call_attempts = 0, call_settled = None\<rparr>"
  let ?s1 = "s\<lparr>pollInterval := Some ?i, timers := [?i], poll_calls := poll_calls s @ [?c]\<rparr>"
  have p2: "?i < length (poll_calls ?s1)" by simp
  have p3: "poll_calls ?s1 ! ?i = ?c" by simp
  have p4: "?i \<in> set (timers ?s1)" by simp
  have e: "0 + 60 \<le> (60::nat)" by simp
  from pending_ticks [where poll = poll and ap = ap, OF pending p2 p3 p4 e]
  obtain logj where runj: "poll_run ap (own_ticks ?i poll 0 60) ?s1
            = ?s1\<lparr>poll_calls := (poll_calls ?s1)
                   [?i := \<lparr>call_pin = pinA, call_max = 60, call_attempts = 0 + 60,
                           call_settled = None\<rparr>],
                 poll_net := logj\<rparr>"
    by blast
  let ?s2 = "?s1\<lparr>poll_calls := (poll_calls ?s1)
                   [?i := \<lparr>call_pin = pinA, call_max = 60, call_attempts = 0 + 60,
                           call_settled = None\<rparr>],
                 poll_net := logj\<rparr>"
  let ?s4 = "poll_step ap (Tick ?i (poll 61)) (poll_step ap (Call pinB 60) ?s2)"
  have run: "poll_run ap (Call pinA 60 # own_ticks ?i poll 0 60
                @ Call pinB 60 # Tick ?i (poll 61) # es) s
               = poll_run ap es ?s4"
  proof -
    have "poll_run ap (Call pinA 60 # own_ticks ?i poll 0 60
                @ Call pinB 60 # Tick ?i (poll 61) # es) s
            = poll_run ap (Call pinB 60 # Tick ?i (poll 61) # es)
                (poll_run ap (own_ticks ?i poll 0 60) ?s1)"
      using idle by (simp add: poll_run_append)
    also have "\<dots> = poll_run ap (Call pinB 60 # Tick ?i (poll 61) # es) ?s2"
      by (simp only: runj)
    also have "\<dots> = poll_run ap es ?s4"
      by simp
    finally show ?thesis .
  qed
  have q1: "?i + 1 < length (poll_calls ?s4)"
    by (simp add: clearInterval_def settle_def)
  have q2: "?i + 1 \<notin> set (timers ?s4)"
    by (simp add: clearInterval_def settle_def)
  have q3: "call_settled (poll_calls ?s4 ! (?i + 1)) = None"
    by (simp add: clearInterval_def settle_def nth_append)
  from cleared_timer_never_settles [OF q1 q2 q3, of ap es]
  show ?thesis
    unfolding run .
qed



section \<open>Properties: stored tokens of the extension\<close>

lemma request_answered:
  "fst (request origin out endpoint opts ap log) = answered out"
  by (cases out) (auto simp: request_def answered_def Let_def split: option.splits)

lemma authenticate_answered:
  "fst (authenticate origin out p ap log) = answered out"
proof -
  obtain res log1 where r: "request origin out ''/api/v1/auth/signin''
             \<lparr>http_method = Some ''POST'', headers = Map.empty, credentials = None, mode = None,
              body = JsonBody [(''plex_token'', p)]\<rparr> ap log = (res, log1)"
    by (cases "request origin out ''/api/v1/auth/signin''
             \<lparr>http_method = Some ''POST'', headers = Map.empty, credentials = None, mode = None,
              body = JsonBody [(''plex_token'', p)]\<rparr> ap log")
  with request_answered [of origin out "''/api/v1/auth/signin''" _ ap log]
  have "res = answered out" by (metis fst_conv)
  with r show ?thesis
    by (cases "answered out") (simp_all add: authenticate_def)
qed

lemma refreshTokens_failed:
  assumes p: "plexToken (local m) = Str p" "p \<noteq> []"
      and a: "answered (signin r) = Inl err"
  shows "\<exists>m'. refreshTokens r m = (Inl err, m')
              \<and> local m' = \<lparr>authToken = Undefined, plexToken = Undefined, tokenExpiry = None\<rparr>
              \<and> api_token (api m') = None \<and> api_plexToken (api m') = None"
proof -
  obtain res api1 log1 where au:
    "authenticate (extension_url m) (signin r) p (api m) (net m) = (res, api1, log1)"
    by (cases "authenticate (extension_url m) (signin r) p (api m) (net m)") auto
  with authenticate_answered [of "extension_url m" "signin r" p "api m" "net m"] a
  have "res = Inl err" by simp
  with au p show ?thesis
    by (simp add: refreshTokens_def clearTokens_def)
qed

lemma refreshTokens_succeeded:
  assumes p: "plexToken (local m) = Str p" "p \<noteq> []"
      and a: "answered (signin r) = Inr resp"
  shows "\<exists>m'. refreshTokens r m = (Inr resp, m')
              \<and> local m' = \<lparr>authToken = (case access_token resp of
                                   Undefined \<Rightarrow> authToken (local m)
                                 | Null \<Rightarrow> Null
                                 | Str t \<Rightarrow> Str t),
                             plexToken = Str p,
                             tokenExpiry = Some (now_save r + 7 * 24 * 60 * 60 * 1000)\<rparr>"
proof -
  obtain res api1 log1 where au:
    "authenticate (extension_url m) (signin r) p (api m) (net m) = (res, api1, log1)"
    by (cases "authenticate (extension_url m) (signin r) p (api m) (net m)") auto
  with authenticate_answered [of "extension_url m" "signin r" p "api m" "net m"] a
  have "res = Inr resp" by simp
  with au p show ?thesis
    by (simp add: refreshTokens_def saveTokens_def split: jsval.splits)
qed

text \<open>
  Claim C1, amended. Let the stored expiry be a non-zero timestamp earlier than the
  reading of the clock, and the stored provider token be present. \<open>getStoredTokens\<close>
  then calls \<open>refreshTokens\<close>. When the sign-in succeeds it calls itself once more
  and, provided less than seven days pass between the save and the second reading of
  the clock, returns the stored session, whose expiry is seven days after the save and
  later than that reading, with the provider token kept and, as access token, the
  \<open>access_token\<close> of the answer: a string or \<open>null\<close> as answered, and the token stored
  before when the answer has none. When the sign-in fails, all three stored keys and the tokens of the API client are
  cleared and \<open>getStoredTokens\<close> throws the error of the sign-in.
\<close>

theorem getStoredTokens_refreshes_or_throws:
  assumes expired: "tokenExpiry (local m) = Some e" "e \<noteq> 0" "e < now_read r1"
      and provider: "plexToken (local m) = Str p" "p \<noteq> []"
      and clock: "now_read r2 < now_save r1 + 7 * 24 * 60 * 60 * 1000"
  shows "case answered (signin r1) of
           Inl err \<Rightarrow>
             (\<exists>m'. getStoredTokens (r1 # rs) m = Some (Inl err, m')
                   \<and> local m' = \<lparr>authToken = Undefined, plexToken = Undefined, tokenExpiry = None\<rparr>
                   \<and> api_token (api m') = None \<and> api_plexToken (api m') = None)
         | Inr resp \<Rightarrow>
             (\<exists>data m'. getStoredTokens [r1, r2] m = Some (Inr data, m')
                   \<and> local m' = data
                   \<and> tokenExpiry data = Some (now_save r1 + 7 * 24 * 60 * 60 * 1000)
                   \<and> now_read r2 < now_save r1 + 7 * 24 * 60 * 60 * 1000
                   \<and> plexToken data = Str p
                   \<and> authToken data = (case access_token resp of
                                   Undefined \<Rightarrow> authToken (local m)
                                 | Null \<Rightarrow> Null
                                 | Str t \<Rightarrow> Str t))"
proof (cases "answered (signin r1)")
  case (Inl err)
  from refreshTokens_failed [OF provider Inl]
  obtain m' where "refreshTokens r1 m = (Inl err, m')"
    and "local m' = \<lparr>authToken = Undefined, plexToken = Undefined, tokenExpiry = None\<rparr>"
    and "api_token (api m') = None" "api_plexToken (api m') = None"
    by blast
  with expired Inl show ?thesis
    by simp
next
  case (Inr resp)
  from refreshTokens_succeeded [OF provider Inr]
  obtain m' where rf: "refreshTokens r1 m = (Inr resp, m')"
    and st: "local m' = \<lparr>authToken = (case access_token resp of
                                   Undefined \<Rightarrow> authToken (local m)
                                 | Null \<Rightarrow> Null
                                 | Str t \<Rightarrow> Str t),
                             plexToken = Str p,
                             tokenExpiry = Some (now_save r1 + 7 * 24 * 60 * 60 * 1000)\<rparr>"
    by blast
  from st clock have "getStoredTokens [r2] m' = Some (Inr (local m'), m')"
    by simp
  with expired rf have "getStoredTokens [r1, r2] m = Some (Inr (local m'), m')"
    by simp
  with st clock Inr show ?thesis
    by simp
qed

theorem getStoredTokens_refreshes_or_throws_witness:
  "tokenExpiry (local expired_manager) = Some 1700000000000
   \<and> (1700000000000::int) \<noteq> 0
   \<and> 1700000000000 < now_read accepted_round
   \<and> plexToken (local expired_manager) = Str ''ptk_1''
   \<and> ''ptk_1'' \<noteq> []
   \<and> now_read later_round < now_save accepted_round + 7 * 24 * 60 * 60 * 1000
   \<and> map_option fst (getStoredTokens [accepted_round, later_round] expired_manager)
       = Some (Inr \<lparr>authToken = Str ''at_new'', plexToken = Str ''ptk_1'',
                    tokenExpiry = Some 1700604900300\<rparr>)"
proof -
  have h1: "tokenExpiry (local expired_manager) = Some 1700000000000"
    by (simp add: expired_manager_def)
  have h2: "(1700000000000::int) \<noteq> 0" by simp
  have h3: "1700000000000 < now_read accepted_round"
    by (simp add: accepted_round_def)
  have h4: "plexToken (local expired_manager) = Str ''ptk_1''"
    by (simp add: expired_manager_def)
  have h5: "''ptk_1'' \<noteq> []" by simp
  have h7: "now_read later_round < now_save accepted_round + 7 * 24 * 60 * 60 * 1000"
    by (simp add: accepted_round_def later_round_def)
  have a: "answered (signin accepted_round)
             = Inr \<lparr>access_token = Str ''at_new'', user = Some ''jo''\<rparr>"
    by (simp add: answered_def accepted_round_def signin_success_def ok_def)
  have s: "now_save accepted_round = 1700000100300"
    by (simp add: accepted_round_def)
  from getStoredTokens_refreshes_or_throws [OF h1 h2 h3 h4 h5 h7]
  obtain data m' where
    "getStoredTokens [accepted_round, later_round] expired_manager = Some (Inr data, m')"
    "tokenExpiry data = Some (now_save accepted_round + 7 * 24 * 60 * 60 * 1000)"
    "plexToken data = Str ''ptk_1''"
    "authToken data = Str ''at_new''"
    by (auto simp: a)
  then have "map_option fst (getStoredTokens [accepted_round, later_round] expired_manager)
       = Some (Inr \<lparr>authToken = Str ''at_new'', plexToken = Str ''ptk_1'',
                    tokenExpiry = Some 1700604900300\<rparr>)"
    by (cases data) (simp add: s)
  with h1 h2 h3 h4 h5 h7 show ?thesis
    by simp
qed

text \<open>
  Claim C1, as stated, fails: with an expired session and a sign-in the backend
  refuses, \<open>getStoredTokens\<close> clears the store and throws the error; it does not return
  an empty session.
\<close>

theorem getStoredTokens_failed_refresh_throws_counterexample:
  "map_option fst (getStoredTokens [refused_round, later_round] expired_manager)
     = Some (Inl (ErrorDetail ''Invalid Plex token''))
   \<and> map_option (local \<circ> snd) (getStoredTokens [refused_round, later_round] expired_manager)
       = Some \<lparr>authToken = Undefined, plexToken = Undefined, tokenExpiry = None\<rparr>"
  by (simp add: expired_manager_def refused_round_def signin_failure_def refreshTokens_def
        authenticate_def request_def errorDetail_def ok_def clearTokens_def Let_def)

section \<open>Properties: SecureStorage\<close>

lemma view_get:
  "view (snd (snd (SecureStorage_get b keys s))) = view s"
  by (rule ext)
     (auto simp: SecureStorage_get_def Let_def view_def as_object_def map_add_def
        restrict_map_def split: option.splits)

lemma view_call: "view (call c s) = written [c] (view s)"
proof (cases c)
  case (Get keys b)
  then show ?thesis by (simp add: view_get)
next
  case (Set data b)
  then show ?thesis
    by (cases b)
       (auto simp: SecureStorage_set_def view_def as_object_def stored_part_def map_add_def
          fun_eq_iff split: option.splits)
next
  case (Remove keys b)
  then show ?thesis
    by (cases b)
       (auto simp: SecureStorage_remove_def view_def as_object_def map_add_def
          restrict_map_def fun_eq_iff split: option.splits)
next
  case (Clear b)
  then show ?thesis
    by (cases b)
       (auto simp: SecureStorage_clear_def view_def as_object_def map_add_def fun_eq_iff)
qed

lemma written_Cons: "written (c # cs) w = written cs (written [c] w)"
  by (cases c) simp_all

lemma view_calls: "view (calls cs s) = written cs (view s)"
proof (induction cs arbitrary: s)
  case Nil
  show ?case by simp
next
  case (Cons c cs)
  have "view (calls (c # cs) s) = written cs (view (call c s))"
    using Cons.IH [of "call c s"] by simp
  also have "\<dots> = written cs (written [c] (view s))"
    by (simp only: view_call)
  finally show ?case
    by (simp only: written_Cons [of c cs])
qed

lemma get_answers_view:
  "fst (SecureStorage_get True keys s) = view s |` set keys"
proof (rule ext)
  fix k
  show "fst (SecureStorage_get True keys s) k = (view s |` set keys) k"
    by (cases "cache s k")
       (auto simp: SecureStorage_get_def Let_def view_def as_object_def map_add_def
          restrict_map_def filter_empty_conv split: option.splits)
qed

lemma get_below_view:
  "fst (SecureStorage_get b keys s) \<subseteq>\<^sub>m view s"
  by (auto simp: SecureStorage_get_def Let_def view_def as_object_def map_le_def map_add_def
        restrict_map_def dom_def split: option.splits if_splits)

lemma coherent_view:
  assumes "cache s \<subseteq>\<^sub>m as_object (area s)"
  shows "view s = as_object (area s)"
proof (rule ext)
  fix k
  show "view s k = as_object (area s) k"
    using assms
    by (cases "cache s k") (auto simp: view_def map_add_def map_le_def dom_def)
qed

lemma coherent_call:
  assumes "cache s \<subseteq>\<^sub>m as_object (area s)" and "defined_values [c]"
  shows "cache (call c s) \<subseteq>\<^sub>m as_object (area (call c s))"
proof (cases c)
  case (Get keys b)
  with assms show ?thesis
    by (auto simp: SecureStorage_get_def Let_def as_object_def map_le_def map_add_def
          restrict_map_def dom_def split: option.splits if_splits)
next
  case (Set data b)
  with assms(2) have d: "\<And>k. data k \<noteq> Some None" by simp
  show ?thesis
  proof (cases b)
    case False
    with Set assms(1) show ?thesis by (simp add: SecureStorage_set_def)
  next
    case True
    have "cache s ++ data \<subseteq>\<^sub>m as_object (area s ++ stored_part data)"
      unfolding map_le_def
    proof
      fix k
      assume "k \<in> dom (cache s ++ data)"
      show "(cache s ++ data) k = as_object (area s ++ stored_part data) k"
      proof (cases "data k")
        case None
        with \<open>k \<in> dom (cache s ++ data)\<close> assms(1) show ?thesis
          by (auto simp: map_add_def as_object_def stored_part_def map_le_def dom_def)
      next
        case (Some v)
        with d [of k] obtain x where "v = Some x" by (cases v) auto
        with Some show ?thesis
          by (simp add: map_add_def as_object_def stored_part_def)
      qed
    qed
    with Set True show ?thesis by (simp add: SecureStorage_set_def)
  qed
next
  case (Remove keys b)
  with assms(1) show ?thesis
    by (cases b)
       (auto simp: SecureStorage_remove_def as_object_def map_le_def restrict_map_def dom_def
          split: if_splits)
next
  case (Clear b)
  with assms(1) show ?thesis
    by (cases b) (auto simp: SecureStorage_clear_def)
qed

lemma defined_values_Cons:
  "defined_values (c # cs) = (defined_values [c] \<and> defined_values cs)"
  by (cases c) simp_all

lemma coherent_calls:
  "cache s \<subseteq>\<^sub>m as_object (area s) \<Longrightarrow> defined_values cs \<Longrightarrow>
     cache (calls cs s) \<subseteq>\<^sub>m as_object (area (calls cs s))"
proof (induction cs arbitrary: s)
  case Nil
  then show ?case by simp
next
  case (Cons c cs)
  from Cons.prems(2) have c: "defined_values [c]" and cs: "defined_values cs"
    by (simp_all only: defined_values_Cons [of c cs])
  from coherent_call [OF Cons.prems(1) c] have "cache (call c s) \<subseteq>\<^sub>m as_object (area (call c s))" .
  from Cons.IH [OF this cs] show ?case by simp
qed

lemma set_then_get:
  assumes "data k = Some v"
  shows "\<exists>s1. SecureStorage_set True data s = Inr s1
              \<and> SecureStorage_get b [k] s1 = ([k \<mapsto> v], None, s1)"
proof -
  have "SecureStorage_get b [k]
          (s\<lparr>area := area s ++ stored_part data, cache := cache s ++ data\<rparr>)
          = ([k \<mapsto> v], None, s\<lparr>area := area s ++ stored_part data, cache := cache s ++ data\<rparr>)"
    using assms
    by (auto simp: SecureStorage_get_def Let_def map_add_def restrict_map_def)
  then show ?thesis
    by (simp add: SecureStorage_set_def)
qed

lemma remove_from_both:
  assumes "k \<in> set keys"
  shows "\<exists>s1. SecureStorage_remove True keys s = Inr s1 \<and> cache s1 k = None \<and> area s1 k = None"
  using assms by (simp add: SecureStorage_remove_def)

lemma clear_both:
  "\<exists>s1. SecureStorage_clear True s = Inr s1 \<and> cache s1 = Map.empty \<and> area s1 = Map.empty"
  by (simp add: SecureStorage_clear_def)

text \<open>
  Claim C9, as stated, fails: a \<open>set\<close> that passes \<open>undefined\<close> for a key resolves, the
  storage area keeps the old value of the key, and the \<open>Map\<close> and every \<open>get\<close> answer
  \<open>undefined\<close> for it. The cache and the storage behind it disagree.
\<close>

theorem SecureStorage_undefined_breaks_coherence_counterexample:
  "SecureStorage_set True [''clipforge_auth'' \<mapsto> None] new_storage
     = Inr (calls undefined_set new_storage)
   \<and> area (calls undefined_set new_storage) ''clipforge_auth'' = Some ''a0''
   \<and> cache (calls undefined_set new_storage) ''clipforge_auth'' = Some None
   \<and> fst (SecureStorage_get True [''clipforge_auth''] (calls undefined_set new_storage))
        ''clipforge_auth'' = Some None"
  by (simp add: undefined_set_def new_storage_def SecureStorage_set_def SecureStorage_get_def
        stored_part_def map_add_def)

text \<open>
  Claim C9, amended. After any sequence of calls, a \<open>get\<close> returns for each key the
  value last written through the instance, \<open>undefined\<close> included (the content of the
  storage area for a key never written), and never another value when the storage
  read fails. When the instance starts in agreement with the storage area (a new
  instance does) and no \<open>set\<close> passes \<open>undefined\<close>, the \<open>Map\<close> agrees with the
  storage area on every key it holds, and the storage area holds the values last
  written. After a \<open>set(data)\<close> that resolves, \<open>get(k)\<close> for a key of \<open>data\<close> returns
  the value just written without asking the storage area; \<open>remove(keys)\<close> deletes
  each key from the \<open>Map\<close> and from the storage area, and \<open>clear()\<close> empties both.
\<close>

theorem SecureStorage_write_through:
  assumes written_key: "data k = Some v"
      and removed_key: "k' \<in> set ks"
  shows "fst (SecureStorage_get True keys (calls cs start)) = written cs (view start) |` set keys
         \<and> fst (SecureStorage_get b keys (calls cs start)) \<subseteq>\<^sub>m written cs (view start)
         \<and> (cache start \<subseteq>\<^sub>m as_object (area start) \<and> defined_values cs \<longrightarrow>
              cache (calls cs start) \<subseteq>\<^sub>m as_object (area (calls cs start))
              \<and> as_object (area (calls cs start)) = written cs (as_object (area start)))
         \<and> (\<exists>s1. SecureStorage_set True data (calls cs start) = Inr s1
                  \<and> SecureStorage_get b [k] s1 = ([k \<mapsto> v], None, s1))
         \<and> (\<exists>s1. SecureStorage_remove True ks (calls cs start) = Inr s1
                  \<and> cache s1 k' = None \<and> area s1 k' = None)
         \<and> (\<exists>s1. SecureStorage_clear True (calls cs start) = Inr s1
                  \<and> cache s1 = Map.empty \<and> area s1 = Map.empty)"
proof -
  have g1: "fst (SecureStorage_get True keys (calls cs start))
              = written cs (view start) |` set keys"
    by (simp only: get_answers_view view_calls)
  have g2: "fst (SecureStorage_get b keys (calls cs start)) \<subseteq>\<^sub>m written cs (view start)"
    using get_below_view [of b keys "calls cs start"] by (simp only: view_calls)
  have co: "cache start \<subseteq>\<^sub>m as_object (area start) \<and> defined_values cs \<longrightarrow>
              cache (calls cs start) \<subseteq>\<^sub>m as_object (area (calls cs start))
              \<and> as_object (area (calls cs start)) = written cs (as_object (area start))"
  proof
    assume a: "cache start \<subseteq>\<^sub>m as_object (area start) \<and> defined_values cs"
    then have c: "cache (calls cs start) \<subseteq>\<^sub>m as_object (area (calls cs start))"
      using coherent_calls by blast
    have "as_object (area (calls cs start)) = view (calls cs start)"
      using coherent_view [OF c] by simp
    also have "\<dots> = written cs (view start)"
      by (rule view_calls)
    also have "view start = as_object (area start)"
      using a coherent_view by blast
    finally show "cache (calls cs start) \<subseteq>\<^sub>m as_object (area (calls cs start))
              \<and> as_object (area (calls cs start)) = written cs (as_object (area start))"
      using c by blast
  qed
  show ?thesis
    using g1 g2 co
      set_then_get [where data = data and k = k and v = v and s = "calls cs start" and b = b,
                    OF written_key]
      remove_from_both [OF removed_key, of "calls cs start"] clear_both [of "calls cs start"]
    by blast
qed

theorem SecureStorage_write_through_witness:
  "[''authToken'' \<mapsto> Some ''t1''] ''authToken'' = Some (Some ''t1'')
   \<and> ''plexToken'' \<in> set [''plexToken'', ''tokenExpiry'']
   \<and> cache new_storage = Map.empty
   \<and> defined_values three_calls
   \<and> area (calls three_calls new_storage) ''plexToken'' = Some ''p1''
   \<and> area (calls three_calls new_storage) ''clipforge_auth'' = None
   \<and> fst (SecureStorage_get True [''plexToken'', ''clipforge_auth'']
             (calls three_calls new_storage)) ''plexToken'' = Some (Some ''p1'')
   \<and> fst (SecureStorage_get True [''plexToken'', ''clipforge_auth'']
             (calls three_calls new_storage)) ''clipforge_auth'' = None"
proof -
  have h1: "[''authToken'' \<mapsto> Some ''t1''] ''authToken'' = Some (Some ''t1'')"
    by simp
  have h2: "''plexToken'' \<in> set [''plexToken'', ''tokenExpiry'']"
    by simp
  have h3: "cache new_storage \<subseteq>\<^sub>m as_object (area new_storage)"
    by (simp add: new_storage_def)
  have h4: "defined_values three_calls"
    by (simp add: three_calls_def)
  have w: "written three_calls (as_object (area new_storage)) = [''plexToken'' \<mapsto> Some ''p1'']"
    by (rule ext)
       (simp add: three_calls_def new_storage_def as_object_def map_add_def restrict_map_def)
  have v: "view new_storage = as_object (area new_storage)"
    by (rule coherent_view [OF h3])
  from SecureStorage_write_through [where start = new_storage
         and data = "[''authToken'' \<mapsto> Some ''t1'']" and k = "''authToken''"
         and v = "Some ''t1''"
         and k' = "''plexToken''" and ks = "[''plexToken'', ''tokenExpiry'']"
         and cs = three_calls and keys = "[''plexToken'', ''clipforge_auth'']" and b = True,
         OF h1 h2] h3 h4
  have r: "fst (SecureStorage_get True [''plexToken'', ''clipforge_auth'']
                (calls three_calls new_storage))
           = [''plexToken'' \<mapsto> Some ''p1''] |` set [''plexToken'', ''clipforge_auth'']"
    and a: "as_object (area (calls three_calls new_storage)) = [''plexToken'' \<mapsto> Some ''p1'']"
    by (simp_all add: w v)
  from a have "as_object (area (calls three_calls new_storage)) ''plexToken'' = Some (Some ''p1'')"
    and "as_object (area (calls three_calls new_storage)) ''clipforge_auth'' = None"
    by simp_all
  then have "area (calls three_calls new_storage) ''plexToken'' = Some ''p1''"
    and "area (calls three_calls new_storage) ''clipforge_auth'' = None"
    by (auto simp: as_object_def)
  with r h1 h2 h4 show ?thesis
    by (simp add: new_storage_def)
qed

end
